theory Spec2Isabelle
  imports Main "HOL-Library.Word" "HOL-Library.Sublist"
begin

section \<open>The aufs graph driver (daemon/graphdriver/aufs)\<close>

text \<open>
  A shallow embedding of the aufs layer driver: the layer store (\<open>getChilds\<close>,
  \<open>getParentIds\<close>, \<open>getIdDesc\<close>), the union mount engine (\<open>aufsMount\<close>,
  \<open>useDirperm\<close>) and the reference-counted lifecycle (\<open>Get\<close>, \<open>Put\<close>, \<open>Remove\<close>,
  \<open>Create\<close>, \<open>Init\<close>).

  The driver talks to the operating system through collaborators that are not part of
  the package's sources (the Go standard library, \<open>pkg/mount\<close>, \<open>graphdriver\<close>,
  \<open>libcontainer/label\<close> and the package's own \<open>mount\<close> and \<open>Unmount\<close> wrappers).
  They are parameters of the model, collected in the record \<open>env\<close>. Every call that
  changes the system is appended to a history; what a collaborator answers is an
  arbitrary function of the history so far and of the arguments of the call. A theorem
  that holds for every \<open>env\<close> therefore holds for every deterministic behaviour of the
  system that the driver can meet.
\<close>

subsection \<open>Errors\<close>

type_synonym errno = nat

text \<open>
  Go errors as values. \<open>OsError\<close> wraps what a collaborator returned; the others are
  the package's own error values, the scanner's \<open>ErrTooLong\<close>, the error built by
  \<open>fmt.Errorf\<close> in \<open>mount\<close>, and the run-time panic of \<open>make\<close> with a negative
  length (a panic is no error value in Go: it unwinds the callers, which the model
  writes as a result that every caller passes on unchanged).
\<close>

datatype error =
    OsError errno
  | ErrTooLong
  | ErrAufsNotSupported
  | ErrNotSupported
  | ErrIncompatibleFS
  | ErrUnknownID
  | ErrCreatingMount string error
  | PanicMakeslice

definition ENOENT :: errno where
  "ENOENT = 2"

definition EEXIST :: errno where
  "EEXIST = 17"

definition ENOTEMPTY :: errno where
  "ENOTEMPTY = 39"

text \<open>\<open>os.IsNotExist\<close> and \<open>os.IsExist\<close>: they look at the error of the system call.\<close>

fun IsNotExist :: "error \<Rightarrow> bool" where
  "IsNotExist (OsError e) = (e = ENOENT)"
| "IsNotExist _ = False"

fun IsExist :: "error \<Rightarrow> bool" where
  "IsExist (OsError e) = (e = EEXIST \<or> e = ENOTEMPTY)"
| "IsExist _ = False"

subsection \<open>The system: calls, history and collaborators\<close>

text \<open>
  The calls that change the system, with their arguments as the source passes them.
  \<open>Mount source target fstype flags data\<close> is the package's \<open>mount\<close>.
\<close>

datatype call =
    Mount string string string "64 word" string
  | Unmount string
  | Rename string string
  | RemoveAll string
  | Remove_file string
  | MkdirAll string nat
  | MakePrivate string
  | TempDir string string
  | Exec_Run string "string list"
  | Create_file string
  | Fprintln string string
  | Close_file string

text \<open>The permission bits written \<open>0755\<close> (octal) in the source.\<close>

definition perm_0755 :: nat where
  "perm_0755 = 7 * 64 + 5 * 8 + 5"

record FileInfo =
  Name :: string
  IsDir :: bool

text \<open>
  \<open>os_Open\<close> answers for \<open>os.Open\<close> and the reads that follow: the bytes the file
  delivers, and the read error that ended them if any.
  The constants \<open>MsRemount\<close>, \<open>FsMagicBtrfs\<close>, \<open>FsMagicAufs\<close> and the table
  \<open>FsNames\<close> are declared outside the sources at hand and are parameters too.
\<close>

record env =
  ioutil_ReadDir :: "call list \<Rightarrow> string \<Rightarrow> errno + FileInfo list"
  os_Open :: "call list \<Rightarrow> string \<Rightarrow> errno + (string \<times> errno option)"
  mountpk_Mounted :: "call list \<Rightarrow> string \<Rightarrow> errno + bool"
  ioutil_TempDir :: "call list \<Rightarrow> string \<Rightarrow> string \<Rightarrow> errno + string"
  graphdriver_GetFSMagic :: "call list \<Rightarrow> string \<Rightarrow> errno + 32 word"
  sys_result :: "call list \<Rightarrow> call \<Rightarrow> errno option"
  syscall_Getpagesize :: int
  label_FormatMountLabel :: "string \<Rightarrow> string \<Rightarrow> string"
  MsRemount :: "64 word"
  FsMagicBtrfs :: "32 word"
  FsMagicAufs :: "32 word"
  FsNames :: "32 word \<Rightarrow> string option"

text \<open>
  The state outside the driver value: the history of calls and the package-level
  variables \<open>enableDirpermLock\<close> (whether the \<open>sync.Once\<close> has fired),
  \<open>enableDirperm\<close> and \<open>backingFs\<close>.
\<close>

record world =
  calls :: "call list"
  enableDirpermLock :: bool
  enableDirperm :: bool
  backingFs :: string

text \<open>Issue a call: the collaborator answers from the history, the call is recorded.\<close>

definition do_call :: "env \<Rightarrow> call \<Rightarrow> world \<Rightarrow> error option \<times> world" where
  "do_call E c w =
     (map_option OsError (sys_result E (calls w) c), w\<lparr>calls := calls w @ [c]\<rparr>)"

subsection \<open>Paths: \<open>path.Join\<close> and \<open>path.Clean\<close>\<close>

fun splitSlash :: "string \<Rightarrow> string list" where
  "splitSlash [] = [[]]"
| "splitSlash (c # cs) =
     (if c = CHR ''/'' then [] # splitSlash cs
      else (case splitSlash cs of [] \<Rightarrow> [[c]] | x # xs \<Rightarrow> (c # x) # xs))"

fun joinSlash :: "string list \<Rightarrow> string" where
  "joinSlash [] = []"
| "joinSlash [e] = e"
| "joinSlash (e # es) = e @ ''/'' @ joinSlash es"

text \<open>
  The elements of a path are cleaned from left to right: empty elements and \<open>.\<close> go,
  \<open>..\<close> takes the element before it away when there is one that is not \<open>..\<close>, is
  dropped at the start of a rooted path and kept at the start of a relative one.
\<close>

fun cleanElems :: "bool \<Rightarrow> string list \<Rightarrow> string list \<Rightarrow> string list" where
  "cleanElems rooted out [] = out"
| "cleanElems rooted out (e # es) =
     (if e = [] \<or> e = ''.'' then cleanElems rooted out es
      else if e = ''..'' then
        (if out \<noteq> [] \<and> last out \<noteq> ''..'' then cleanElems rooted (butlast out) es
         else if rooted then cleanElems rooted out es
         else cleanElems rooted (out @ [''..'']) es)
      else cleanElems rooted (out @ [e]) es)"

definition Clean :: "string \<Rightarrow> string" where
  "Clean p =
     (if p = [] then ''.''
      else let rooted = (hd p = CHR ''/'');
               s = (if rooted then ''/'' else []) @ joinSlash (cleanElems rooted [] (splitSlash p))
           in if s = [] then ''.'' else s)"

definition Join :: "string list \<Rightarrow> string" where
  "Join elem =
     (case dropWhile (\<lambda>e. e = []) elem of
        [] \<Rightarrow> []
      | es \<Rightarrow> Clean (joinSlash es))"

subsection \<open>Reading lines: \<open>bufio.Scanner\<close> with \<open>ScanLines\<close>\<close>

definition LF :: char where
  "LF = CHR 0x0A"

definition CR :: char where
  "CR = CHR 0x0D"

definition MaxScanTokenSize :: nat where
  "MaxScanTokenSize = 64 * 1024"

definition dropCR :: "string \<Rightarrow> string" where
  "dropCR data = (if data \<noteq> [] \<and> last data = CR then butlast data else data)"

text \<open>
  The tokens a scanner delivers for the bytes \<open>data\<close> of a stream that ends with the
  read error \<open>rerr\<close> (\<open>None\<close> at a clean end of file), and the value of \<open>Err()\<close>
  afterwards. A line ends at a line feed; one carriage return before it is dropped;
  a last line without line feed is delivered when it is not empty. The buffer holds
  \<open>MaxScanTokenSize\<close> bytes: when it is full and holds no line feed, scanning stops
  with \<open>ErrTooLong\<close>.
\<close>

function Scanner_lines :: "string \<Rightarrow> errno option \<Rightarrow> string list \<times> error option" where
  "Scanner_lines data rerr =
     (let line = takeWhile (\<lambda>c. c \<noteq> LF) data;
          rest = dropWhile (\<lambda>c. c \<noteq> LF) data
      in if rest \<noteq> [] then
           (if length line \<ge> MaxScanTokenSize then ([], Some ErrTooLong)
            else (case Scanner_lines (tl rest) rerr of (ts, e) \<Rightarrow> (dropCR line # ts, e)))
         else if length data \<ge> MaxScanTokenSize then ([], Some ErrTooLong)
         else (if data = [] then [] else [dropCR data], map_option OsError rerr))"
  by pat_completeness auto
termination
proof (relation "measure (\<lambda>(data, rerr). length data)")
  show "wf (measure (\<lambda>(data, rerr). length data))" by simp
next
  fix data :: string and rerr :: "errno option" and x xa
  assume "xa = dropWhile (\<lambda>c. c \<noteq> LF) data" and "xa \<noteq> []"
  then have "length (tl xa) < length xa" by (cases xa) auto
  moreover have "length (dropWhile (\<lambda>c. c \<noteq> LF) data) \<le> length data"
    by (rule length_dropWhile_le)
  ultimately show "((tl xa, rerr), (data, rerr)) \<in> measure (\<lambda>(data, rerr). length data)"
    using \<open>xa = dropWhile (\<lambda>c. c \<noteq> LF) data\<close> by simp
qed

declare Scanner_lines.simps [simp del]

subsection \<open>Directory listings (dirs.go)\<close>

text \<open>The loop of \<open>getChilds\<close> over the entries, with its two \<open>continue\<close>s.\<close>

fun getChilds_loop :: "int \<Rightarrow> FileInfo list \<Rightarrow> string list \<Rightarrow> string list" where
  "getChilds_loop includeType [] out = out"
| "getChilds_loop includeType (d # dirs) out =
     (if includeType = 1 \<and> IsDir d then getChilds_loop includeType dirs out
      else if includeType = 2 \<and> \<not> IsDir d then getChilds_loop includeType dirs out
      else getChilds_loop includeType dirs (out @ [Name d]))"

definition getChilds :: "env \<Rightarrow> world \<Rightarrow> string \<Rightarrow> int \<Rightarrow> error + string list" where
  "getChilds E w root includeType =
     (case ioutil_ReadDir E (calls w) root of
        Inl err \<Rightarrow> Inl (OsError err)
      | Inr dirs \<Rightarrow> Inr (getChilds_loop includeType dirs []))"

definition loadIds :: "env \<Rightarrow> world \<Rightarrow> string \<Rightarrow> error + string list" where
  "loadIds E w root = getChilds E w root 1"

definition getChildDirs :: "env \<Rightarrow> world \<Rightarrow> string \<Rightarrow> error + string list" where
  "getChildDirs E w root = getChilds E w root 2"

text \<open>
  \<open>getParentIds\<close> returns a slice and an error, and both are used by callers
  (\<open>Put\<close> drops the error and keeps the slice). The nil slice of the failed
  \<open>os.Open\<close> is the empty list: the callers only take its length.
\<close>

definition getParentIds :: "env \<Rightarrow> world \<Rightarrow> string \<Rightarrow> string \<Rightarrow> string list \<times> error option" where
  "getParentIds E w root lid =
     (case os_Open E (calls w) (Join [root, ''layers'', lid]) of
        Inl err \<Rightarrow> ([], Some (OsError err))
      | Inr (data, rerr) \<Rightarrow>
          (case Scanner_lines data rerr of
             (ts, err) \<Rightarrow> (filter (\<lambda>t. t \<noteq> []) ts, err)))"

subsection \<open>The driver and the layer store (aufs.go)\<close>

text \<open>Go's \<open>int\<close> is the 64-bit signed integer of linux/amd64.\<close>

record Driver =
  rootNFSImageLayers :: string
  rootLocalContainerLayers :: string
  rootLocalImageLayers :: string
  active :: "string \<Rightarrow> 64 word option"

record IdDesc =
  id' :: string
  rootPath :: string

text \<open>Reading a Go map: a missing key reads as zero.\<close>

definition active_count :: "Driver \<Rightarrow> string \<Rightarrow> 64 word" where
  "active_count a k = (case active a k of None \<Rightarrow> 0 | Some c \<Rightarrow> c)"

fun lookupId :: "string \<Rightarrow> string list \<Rightarrow> IdDesc option" where
  "lookupId targetId [] = None"
| "lookupId targetId (i # ids) =
     (if i = targetId then Some \<lparr>id' = i, rootPath = []\<rparr> else lookupId targetId ids)"

text \<open>The first loop of \<open>getIdDesc\<close>, over the local roots.\<close>

fun getIdDesc_local :: "env \<Rightarrow> world \<Rightarrow> string \<Rightarrow> string list \<Rightarrow> (error + IdDesc) option" where
  "getIdDesc_local E w targetId [] = None"
| "getIdDesc_local E w targetId (p # paths) =
     (case loadIds E w (Join [p, ''layers'']) of
        Inl err \<Rightarrow> Some (Inl err)
      | Inr ids \<Rightarrow>
          (case lookupId targetId ids of
             Some idDesc \<Rightarrow> Some (Inr (idDesc\<lparr>rootPath := p\<rparr>))
           | None \<Rightarrow> getIdDesc_local E w targetId paths))"

text \<open>The second loop, over the sub-directories of the remote root.\<close>

fun getIdDesc_remote :: "env \<Rightarrow> world \<Rightarrow> string \<Rightarrow> string \<Rightarrow> string list \<Rightarrow> IdDesc option" where
  "getIdDesc_remote E w nfs targetId [] = None"
| "getIdDesc_remote E w nfs targetId (subdir # dirs) =
     (case loadIds E w (Join [nfs, subdir, ''layers'']) of
        Inl err \<Rightarrow> getIdDesc_remote E w nfs targetId dirs
      | Inr ids \<Rightarrow>
          (case lookupId targetId ids of
             Some idDesc \<Rightarrow> Some (idDesc\<lparr>rootPath := Join [nfs, subdir]\<rparr>)
           | None \<Rightarrow> getIdDesc_remote E w nfs targetId dirs))"

definition getIdDesc :: "env \<Rightarrow> Driver \<Rightarrow> world \<Rightarrow> string \<Rightarrow> error + IdDesc" where
  "getIdDesc E a w targetId =
     (case getIdDesc_local E w targetId [rootLocalContainerLayers a, rootLocalImageLayers a] of
        Some r \<Rightarrow> r
      | None \<Rightarrow>
          (case getChildDirs E w (rootNFSImageLayers a) of
             Inl err \<Rightarrow> Inl err
           | Inr dirs \<Rightarrow>
               (case getIdDesc_remote E w (rootNFSImageLayers a) targetId dirs of
                  Some idDesc \<Rightarrow> Inr idDesc
                | None \<Rightarrow> Inl ErrUnknownID)))"

definition Exists :: "env \<Rightarrow> Driver \<Rightarrow> world \<Rightarrow> string \<Rightarrow> bool" where
  "Exists E a w lid = (case getIdDesc E a w lid of Inr _ \<Rightarrow> True | Inl err \<Rightarrow> False)"

subsection \<open>The mount pre-check and \<open>unmount\<close>\<close>

definition mounted :: "env \<Rightarrow> world \<Rightarrow> IdDesc \<Rightarrow> error + bool" where
  "mounted E w idDesc =
     (let target = Join [rootPath idDesc, ''mnt'', id' idDesc]
      in case mountpk_Mounted E (calls w) target of
           Inl err \<Rightarrow> Inl (OsError err)
         | Inr m \<Rightarrow> Inr m)"

definition unmount :: "env \<Rightarrow> world \<Rightarrow> IdDesc \<Rightarrow> error option \<times> world" where
  "unmount E w idDesc =
     (case mounted E w idDesc of
        Inl err \<Rightarrow> (Some err, w)
      | Inr m \<Rightarrow>
          if \<not> m then (None, w)
          else do_call E (Unmount (Join [rootPath idDesc, ''mnt'', id' idDesc])) w)"

subsection \<open>The feature probe \<open>useDirperm\<close>\<close>

definition call_TempDir :: "env \<Rightarrow> string \<Rightarrow> string \<Rightarrow> world \<Rightarrow> (error + string) \<times> world" where
  "call_TempDir E dir pfx w =
     (case ioutil_TempDir E (calls w) dir pfx of
        Inl err \<Rightarrow> (Inl (OsError err), w\<lparr>calls := calls w @ [TempDir dir pfx]\<rparr>)
      | Inr name \<Rightarrow> (Inr name, w\<lparr>calls := calls w @ [TempDir dir pfx]\<rparr>))"

text \<open>
  The closure given to \<open>enableDirpermLock.Do\<close>, with its deferred \<open>os.RemoveAll\<close>s run
  at each way out, the later one first. Logging is left out.
\<close>

definition useDirperm_probe :: "env \<Rightarrow> world \<Rightarrow> world" where
  "useDirperm_probe E w =
     (case call_TempDir E [] ''docker-aufs-base'' w of
        (Inl err, w1) \<Rightarrow> w1
      | (Inr base, w1) \<Rightarrow>
          (case call_TempDir E [] ''docker-aufs-union'' w1 of
             (Inl err, w2) \<Rightarrow> snd (do_call E (RemoveAll base) w2)
           | (Inr union', w2) \<Rightarrow>
               (let opts = ''br:'' @ base @ '',dirperm1,xino=/dev/shm/aufs.xino''
                in case do_call E (Mount ''none'' union' ''aufs'' 0 opts) w2 of
                     (Some err, w3) \<Rightarrow>
                       snd (do_call E (RemoveAll base) (snd (do_call E (RemoveAll union') w3)))
                   | (None, w3) \<Rightarrow>
                       (let w4 = w3\<lparr>enableDirperm := True\<rparr>;
                            w5 = snd (do_call E (Unmount union') w4)
                        in snd (do_call E (RemoveAll base)
                                  (snd (do_call E (RemoveAll union') w5)))))))"

definition useDirperm :: "env \<Rightarrow> world \<Rightarrow> bool \<times> world" where
  "useDirperm E w =
     (if enableDirpermLock w then (enableDirperm w, w)
      else (let w' = useDirperm_probe E (w\<lparr>enableDirpermLock := True\<rparr>)
            in (enableDirperm w', w')))"

subsection \<open>The union mount engine \<open>aufsMount\<close>\<close>

text \<open>
  The inner \<open>for ; i < len(ro); i++\<close> loop. The byte slice \<open>b\<close> is only ever read as
  \<open>b[:bp]\<close>, so the model keeps that prefix (\<open>buf\<close>, with \<open>bp = length buf\<close>) and the
  length \<open>lenb\<close> of \<open>b\<close>. The loop ends in three ways: \<open>return\<close> with the error of a
  failed remount (\<open>Inl\<close>), \<open>break\<close>, or its condition failing (both \<open>Inr\<close>, with the
  values of \<open>i\<close> and \<open>b[:bp]\<close> then).
\<close>

function aufsMount_inner ::
  "env \<Rightarrow> string list \<Rightarrow> string \<Rightarrow> string \<Rightarrow> nat \<Rightarrow> bool \<Rightarrow> nat \<Rightarrow> string \<Rightarrow> world
     \<Rightarrow> (error \<times> world) + (nat \<times> string \<times> world)" where
  "aufsMount_inner E ro target mountLabel lenb firstMount i buf w =
     (if i < length ro then
        (let layer = '':'' @ ro ! i @ ''=ro+wh''
         in if firstMount then
              (if length buf + length layer > lenb then Inr (i, buf, w)
               else aufsMount_inner E ro target mountLabel lenb firstMount (Suc i) (buf @ layer) w)
            else
              (let data = label_FormatMountLabel E (''append'' @ layer) mountLabel
               in case do_call E (Mount ''none'' target ''aufs'' (MsRemount E) data) w of
                    (Some err, w') \<Rightarrow> Inl (err, w')
                  | (None, w') \<Rightarrow>
                      aufsMount_inner E ro target mountLabel lenb firstMount (Suc i) buf w'))
      else Inr (i, buf, w))"
  by pat_completeness auto
termination
  by (relation "measure (\<lambda>(E, ro, target, mountLabel, lenb, firstMount, i, buf, w). length ro - i)")
     auto

declare aufsMount_inner.simps [simp del]

text \<open>
  The outer \<open>for\<close> loop has no condition: it is left by \<open>return\<close> or by the
  \<open>break\<close> at \<open>i == len(ro)\<close>. \<open>None\<close> stands for a loop that never ends.
\<close>

partial_function (option) aufsMount_loop ::
  "env \<Rightarrow> string list \<Rightarrow> string \<Rightarrow> string \<Rightarrow> nat \<Rightarrow> bool \<Rightarrow> nat \<Rightarrow> string \<Rightarrow> world
     \<Rightarrow> (error option \<times> world) option" where
  "aufsMount_loop E ro target mountLabel lenb firstMount i buf w =
     (case aufsMount_inner E ro target mountLabel lenb firstMount i buf w of
        Inl (err, w1) \<Rightarrow> Some (Some err, w1)
      | Inr (i1, buf1, w1) \<Rightarrow>
          if firstMount then
            (case useDirperm E w1 of
               (d, w2) \<Rightarrow>
                 (let opts = ''dio,xino=/dev/shm/aufs.xino'' @ (if d then '',dirperm1'' else []);
                      data = label_FormatMountLabel E (buf1 @ '','' @ opts) mountLabel
                  in case do_call E (Mount ''none'' target ''aufs'' 0 data) w2 of
                       (Some err, w3) \<Rightarrow> Some (Some err, w3)
                     | (None, w3) \<Rightarrow>
                         if i1 = length ro then Some (None, w3)
                         else aufsMount_loop E ro target mountLabel lenb False i1 buf1 w3))
          else if i1 = length ro then Some (None, w1)
          else aufsMount_loop E ro target mountLabel lenb False i1 buf1 w1)"

text \<open>
  \<open>make\<close> panics on a negative length; the deferred function then sees \<open>err == nil\<close>
  and does not unmount. \<open>copy\<close> writes as many bytes of \<open>br:<rw>=rw\<close> as \<open>b\<close> holds.
\<close>

definition aufsMount ::
  "env \<Rightarrow> string list \<Rightarrow> string \<Rightarrow> string \<Rightarrow> string \<Rightarrow> world \<Rightarrow> (error option \<times> world) option" where
  "aufsMount E ro rw target mountLabel w =
     (case useDirperm E w of
        (d, w1) \<Rightarrow>
          (let offset = 54 + (if d then int (length ''dirperm1'') else 0);
               n = syscall_Getpagesize E - int (length mountLabel) - offset
           in if n < 0 then Some (Some PanicMakeslice, w1)
              else (let buf = take (nat n) (''br:'' @ rw @ ''=rw'')
                    in case aufsMount_loop E ro target mountLabel (nat n) True 0 buf w1 of
                         None \<Rightarrow> None
                       | Some (None, w2) \<Rightarrow> Some (None, w2)
                       | Some (Some err, w2) \<Rightarrow>
                           Some (Some err, snd (do_call E (Unmount target) w2)))))"

subsection \<open>Parent layer paths and \<open>mount\<close>\<close>

fun getParentLayerPaths_loop ::
  "env \<Rightarrow> Driver \<Rightarrow> world \<Rightarrow> string list \<Rightarrow> string list \<Rightarrow> error + string list" where
  "getParentLayerPaths_loop E a w [] layers = Inr layers"
| "getParentLayerPaths_loop E a w (p # parentIds) layers =
     (case getIdDesc E a w p of
        Inl err \<Rightarrow> Inl err
      | Inr parentIdDesc \<Rightarrow>
          getParentLayerPaths_loop E a w parentIds
            (layers @ [Join [rootPath parentIdDesc, ''diff'', id' parentIdDesc]]))"

definition getParentLayerPaths :: "env \<Rightarrow> Driver \<Rightarrow> world \<Rightarrow> IdDesc \<Rightarrow> error + string list" where
  "getParentLayerPaths E a w idDesc =
     (case getParentIds E w (rootPath idDesc) (id' idDesc) of
        (parentIds, Some err) \<Rightarrow> Inl err
      | (parentIds, None) \<Rightarrow> getParentLayerPaths_loop E a w parentIds [])"

definition mount ::
  "env \<Rightarrow> Driver \<Rightarrow> world \<Rightarrow> IdDesc \<Rightarrow> string \<Rightarrow> (error option \<times> world) option" where
  "mount E a w idDesc mountLabel =
     (case mounted E w idDesc of
        Inl err \<Rightarrow> Some (Some err, w)
      | Inr m \<Rightarrow>
          if m then Some (None, w)
          else (let target = Join [rootPath idDesc, ''mnt'', id' idDesc];
                    rw = Join [rootPath idDesc, ''diff'', id' idDesc]
                in case getParentLayerPaths E a w idDesc of
                     Inl err \<Rightarrow> Some (Some err, w)
                   | Inr layers \<Rightarrow>
                       (case aufsMount E layers rw target mountLabel w of
                          None \<Rightarrow> None
                        | Some (None, w') \<Rightarrow> Some (None, w')
                        | Some (Some err, w') \<Rightarrow>
                            Some (Some (if err = PanicMakeslice then err
                                        else ErrCreatingMount target err), w'))))"

subsection \<open>\<open>Get\<close> and \<open>Put\<close>\<close>

text \<open>
  The mutex is held from \<open>a.Lock()\<close> to the return, so the calls of one operation
  are not interleaved with those of another: the model runs operations one after
  the other.
\<close>

definition Get ::
  "env \<Rightarrow> Driver \<Rightarrow> world \<Rightarrow> string \<Rightarrow> string \<Rightarrow> ((error + string) \<times> Driver \<times> world) option" where
  "Get E a w lid mountLabel =
     (case getIdDesc E a w lid of
        Inl err \<Rightarrow> Some (Inl err, a, w)
      | Inr idDesc \<Rightarrow>
          (case getParentIds E w (rootPath idDesc) (id' idDesc) of
             (ids0, err) \<Rightarrow>
               if err \<noteq> None \<and> \<not> IsNotExist (the err) then Some (Inl (the err), a, w)
               else
                 (let ids = (if err \<noteq> None then [] else ids0);
                      count = active_count a lid;
                      out = Join [rootPath idDesc, ''diff'', id' idDesc]
                  in if length ids > 0 then
                       (let out = Join [rootPath idDesc, ''mnt'', id' idDesc]
                        in if count = 0 then
                             (case mount E a w idDesc mountLabel of
                                None \<Rightarrow> None
                              | Some (Some err, w') \<Rightarrow> Some (Inl err, a, w')
                              | Some (None, w') \<Rightarrow>
                                  Some (Inr out, a\<lparr>active := (active a)(lid \<mapsto> count + 1)\<rparr>, w'))
                           else Some (Inr out, a\<lparr>active := (active a)(lid \<mapsto> count + 1)\<rparr>, w))
                     else Some (Inr out, a\<lparr>active := (active a)(lid \<mapsto> count + 1)\<rparr>, w))))"

definition Put :: "env \<Rightarrow> Driver \<Rightarrow> world \<Rightarrow> string \<Rightarrow> error option \<times> Driver \<times> world" where
  "Put E a w lid =
     (case getIdDesc E a w lid of
        Inl err \<Rightarrow> (Some err, a, w)
      | Inr idDesc \<Rightarrow>
          (let count = active_count a (id' idDesc)
           in if sint count > 1 then
                (None, a\<lparr>active := (active a)(id' idDesc \<mapsto> count - 1)\<rparr>, w)
              else
                (let ids = fst (getParentIds E w (rootPath idDesc) (id' idDesc));
                     w' = (if length ids > 0 then snd (unmount E w idDesc) else w)
                 in (None, a\<lparr>active := (active a)(id' idDesc := None)\<rparr>, w'))))"

subsection \<open>\<open>Remove\<close>\<close>

text \<open>
  The loop over \<open>mnt\<close> and \<open>diff\<close>. Each pass that does not return pushes a deferred
  \<open>os.RemoveAll(tmpPath)\<close>; \<open>deferred\<close> is the stack of their arguments, the last
  pushed first.
\<close>

fun Remove_loop ::
  "env \<Rightarrow> IdDesc \<Rightarrow> string list \<Rightarrow> string list \<Rightarrow> world \<Rightarrow> error option \<times> string list \<times> world" where
  "Remove_loop E idDesc [] deferred w = (None, deferred, w)"
| "Remove_loop E idDesc (p # tmpDirs) deferred w =
     (let realPath = Join [rootPath idDesc, p, id' idDesc];
          tmpPath = Join [rootPath idDesc, p, id' idDesc @ ''-removing'']
      in case do_call E (Rename realPath tmpPath) w of
           (Some err, w') \<Rightarrow>
             if \<not> IsNotExist err then (Some err, deferred, w')
             else Remove_loop E idDesc tmpDirs (tmpPath # deferred) w'
         | (None, w') \<Rightarrow> Remove_loop E idDesc tmpDirs (tmpPath # deferred) w')"

text \<open>The deferred calls run when \<open>Remove\<close> returns, whatever it returns.\<close>

fun run_deferred :: "env \<Rightarrow> string list \<Rightarrow> world \<Rightarrow> world" where
  "run_deferred E [] w = w"
| "run_deferred E (tmpPath # deferred) w =
     run_deferred E deferred (snd (do_call E (RemoveAll tmpPath) w))"

text \<open>\<open>Remove\<close> writes nothing to \<open>a.active\<close>; it reads it for a log line only.\<close>

definition Remove :: "env \<Rightarrow> Driver \<Rightarrow> world \<Rightarrow> string \<Rightarrow> error option \<times> Driver \<times> world" where
  "Remove E a w lid =
     (case getIdDesc E a w lid of
        Inl err \<Rightarrow> (Some err, a, w)
      | Inr idDesc \<Rightarrow>
          (case unmount E w idDesc of
             (Some err, w1) \<Rightarrow> (Some err, a, w1)
           | (None, w1) \<Rightarrow>
               (case Remove_loop E idDesc [''mnt'', ''diff''] [] w1 of
                  (Some err, deferred, w2) \<Rightarrow> (Some err, a, run_deferred E deferred w2)
                | (None, deferred, w2) \<Rightarrow>
                    (case do_call E (Remove_file (Join [rootPath idDesc, ''layers'', id' idDesc])) w2 of
                       (Some err, w3) \<Rightarrow>
                         if \<not> IsNotExist err then (Some err, a, run_deferred E deferred w3)
                         else (None, a, run_deferred E deferred w3)
                     | (None, w3) \<Rightarrow> (None, a, run_deferred E deferred w3)))))"

subsection \<open>\<open>Create\<close>\<close>

definition rootLocalLayers :: "Driver \<Rightarrow> bool \<Rightarrow> string" where
  "rootLocalLayers a isImageLayer =
     (if isImageLayer then rootLocalImageLayers a else rootLocalContainerLayers a)"

fun createDirsFor_loop ::
  "env \<Rightarrow> string \<Rightarrow> string \<Rightarrow> string list \<Rightarrow> world \<Rightarrow> error option \<times> world" where
  "createDirsFor_loop E root lid [] w = (None, w)"
| "createDirsFor_loop E root lid (p # paths) w =
     (case do_call E (MkdirAll (Join [root, p, lid]) perm_0755) w of
        (Some err, w') \<Rightarrow> (Some err, w')
      | (None, w') \<Rightarrow> createDirsFor_loop E root lid paths w')"

definition createDirsFor ::
  "env \<Rightarrow> Driver \<Rightarrow> world \<Rightarrow> string \<Rightarrow> bool \<Rightarrow> (error + string) \<times> world" where
  "createDirsFor E a w lid isImageLayer =
     (let root = rootLocalLayers a isImageLayer
      in case createDirsFor_loop E root lid [''mnt'', ''diff''] w of
           (Some err, w') \<Rightarrow> (Inl err, w')
         | (None, w') \<Rightarrow> (Inr root, w'))"

text \<open>The loop of \<open>fmt.Fprintln(f, i)\<close> over the chain of the parent.\<close>

fun Create_loop :: "env \<Rightarrow> string \<Rightarrow> string list \<Rightarrow> world \<Rightarrow> error option \<times> world" where
  "Create_loop E f [] w = (None, w)"
| "Create_loop E f (i # ids) w =
     (case do_call E (Fprintln f i) w of
        (Some err, w') \<Rightarrow> (Some err, w')
      | (None, w') \<Rightarrow> Create_loop E f ids w')"

text \<open>
  The file is named by its path; the deferred \<open>f.Close()\<close> runs at every way out
  after \<open>os.Create\<close> succeeded.
\<close>

definition Create ::
  "env \<Rightarrow> Driver \<Rightarrow> world \<Rightarrow> string \<Rightarrow> string \<Rightarrow> bool \<Rightarrow> error option \<times> world" where
  "Create E a w lid parent isImageLayer =
     (case createDirsFor E a w lid isImageLayer of
        (Inl err, w1) \<Rightarrow> (Some err, w1)
      | (Inr root, w1) \<Rightarrow>
          (let f = Join [root, ''layers'', lid]
           in case do_call E (Create_file f) w1 of
                (Some err, w2) \<Rightarrow> (Some err, w2)
              | (None, w2) \<Rightarrow>
                  (case (if parent \<noteq> [] then
                           (case getIdDesc E a w2 parent of
                              Inl err \<Rightarrow> (Some err, w2)
                            | Inr parentIdDesc \<Rightarrow>
                                (case getParentIds E w2 (rootPath parentIdDesc) (id' parentIdDesc) of
                                   (ids, Some err) \<Rightarrow> (Some err, w2)
                                 | (ids, None) \<Rightarrow>
                                     (case do_call E (Fprintln f parent) w2 of
                                        (Some err, w3) \<Rightarrow> (Some err, w3)
                                      | (None, w3) \<Rightarrow> Create_loop E f ids w3)))
                         else (None, w2)) of
                     (r, w4) \<Rightarrow> (r, snd (do_call E (Close_file f) w4)))))"

subsection \<open>\<open>Init\<close>\<close>

definition pkg_rootNFSImageLayers :: string where
  "pkg_rootNFSImageLayers = ''/mnt''"

definition pkg_rootLocalContainerLayers :: string where
  "pkg_rootLocalContainerLayers = ''/var/lib/docker-aufs/container-layers''"

definition pkg_rootLocalImageLayers :: string where
  "pkg_rootLocalImageLayers = ''/var/lib/docker-aufs/image-layers''"

text \<open>\<open>strings.Contains\<close> is \<^const>\<open>sublist\<close>, read with the substring first.\<close>

definition Contains :: "string \<Rightarrow> string \<Rightarrow> bool" where
  "Contains s substr = sublist substr s"

definition supportsAufs :: "env \<Rightarrow> world \<Rightarrow> error option \<times> world" where
  "supportsAufs E w =
     (let w1 = snd (do_call E (Exec_Run ''modprobe'' [''aufs'']) w)
      in case os_Open E (calls w1) ''/proc/filesystems'' of
           Inl err \<Rightarrow> (Some (OsError err), w1)
         | Inr (data, rerr) \<Rightarrow>
             if list_ex (\<lambda>t. Contains t ''aufs'') (fst (Scanner_lines data rerr))
             then (None, w1)
             else (Some ErrAufsNotSupported, w1))"

fun createRootDir_loop :: "env \<Rightarrow> string \<Rightarrow> string list \<Rightarrow> world \<Rightarrow> error option \<times> world" where
  "createRootDir_loop E root [] w = (None, w)"
| "createRootDir_loop E root (p # paths) w =
     (case do_call E (MkdirAll (Join [root, p]) perm_0755) w of
        (Some err, w') \<Rightarrow> (Some err, w')
      | (None, w') \<Rightarrow> createRootDir_loop E root paths w')"

definition createRootDir :: "env \<Rightarrow> string \<Rightarrow> world \<Rightarrow> error option \<times> world" where
  "createRootDir E root w =
     (case do_call E (MkdirAll root perm_0755) w of
        (Some err, w1) \<Rightarrow> if IsExist err then (None, w1) else (Some err, w1)
      | (None, w1) \<Rightarrow>
          (case createRootDir_loop E root [''mnt'', ''diff'', ''layers''] w1 of
             (Some err, w2) \<Rightarrow> (Some err, w2)
           | (None, w2) \<Rightarrow> do_call E (MakePrivate root) w2))"

definition incompatibleFsMagic :: "env \<Rightarrow> 32 word list" where
  "incompatibleFsMagic E = [FsMagicBtrfs E, FsMagicAufs E]"

definition Init :: "env \<Rightarrow> world \<Rightarrow> string \<Rightarrow> string list \<Rightarrow> (error + Driver) \<times> world" where
  "Init E w root options =
     (case supportsAufs E w of
        (Some err, w1) \<Rightarrow> (Inl ErrNotSupported, w1)
      | (None, w1) \<Rightarrow>
          (case graphdriver_GetFSMagic E (calls w1) root of
             Inl err \<Rightarrow> (Inl (OsError err), w1)
           | Inr fsMagic \<Rightarrow>
               (let w2 = (case FsNames E fsMagic of
                            Some fsName \<Rightarrow> w1\<lparr>backingFs := fsName\<rparr>
                          | None \<Rightarrow> w1)
                in if list_ex (\<lambda>magic. fsMagic = magic) (incompatibleFsMagic E)
                   then (Inl ErrIncompatibleFS, w2)
                   else
                     (let a = \<lparr>rootNFSImageLayers = pkg_rootNFSImageLayers,
                               rootLocalContainerLayers = pkg_rootLocalContainerLayers,
                               rootLocalImageLayers = pkg_rootLocalImageLayers,
                               active = Map.empty\<rparr>
                      in case createRootDir E (rootLocalContainerLayers a) w2 of
                           (Some err, w3) \<Rightarrow> (Inl err, w3)
                         | (None, w3) \<Rightarrow>
                             (case createRootDir E (rootLocalImageLayers a) w3 of
                                (Some err, w4) \<Rightarrow> (Inl err, w4)
                              | (None, w4) \<Rightarrow> (Inr a, w4))))))"

section \<open>Notions used to state the properties\<close>

subsection \<open>The layer store\<close>

text \<open>
  Whether the \<open>layers/\<close> directory of the sub-partition \<open>subdir\<close> of the remote root
  can be listed and holds a file named \<open>targetId\<close>.
\<close>

definition remote_has :: "env \<Rightarrow> world \<Rightarrow> string \<Rightarrow> string \<Rightarrow> string \<Rightarrow> bool" where
  "remote_has E w nfs targetId subdir =
     (case loadIds E w (Join [nfs, subdir, ''layers'']) of
        Inl err \<Rightarrow> False
      | Inr ids \<Rightarrow> targetId \<in> set ids)"

subsection \<open>The union mount engine\<close>

text \<open>The option text of one read-only branch.\<close>

definition branch_opt :: "string \<Rightarrow> string" where
  "branch_opt r = '':'' @ r @ ''=ro+wh''"

text \<open>
  How many branches, taken from the front of \<open>ro\<close>, fit in a buffer of \<open>cap\<close> bytes of
  which \<open>used\<close> are taken: the count stops at the first branch that does not fit.
\<close>

fun branches_fit :: "nat \<Rightarrow> nat \<Rightarrow> string list \<Rightarrow> nat" where
  "branches_fit cap used [] = 0"
| "branches_fit cap used (r # ro) =
     (if used + length (branch_opt r) > cap then 0
      else Suc (branches_fit cap (used + length (branch_opt r)) ro))"

text \<open>Issue calls in order and stop at the first one that fails.\<close>

fun do_calls :: "env \<Rightarrow> call list \<Rightarrow> world \<Rightarrow> error option \<times> world" where
  "do_calls E [] w = (None, w)"
| "do_calls E (c # cs) w =
     (case do_call E c w of
        (Some err, w') \<Rightarrow> (Some err, w')
      | (None, w') \<Rightarrow> do_calls E cs w')"

definition remount_call :: "env \<Rightarrow> string \<Rightarrow> string \<Rightarrow> string \<Rightarrow> call" where
  "remount_call E target mountLabel r =
     Mount ''none'' target ''aufs'' (MsRemount E)
       (label_FormatMountLabel E (''append:'' @ r @ ''=ro+wh'') mountLabel)"

definition first_mount_call :: "env \<Rightarrow> string \<Rightarrow> string \<Rightarrow> string \<Rightarrow> bool \<Rightarrow> call" where
  "first_mount_call E target mountLabel branches dirperm =
     Mount ''none'' target ''aufs'' 0
       (label_FormatMountLabel E
          (branches @ '',dio,xino=/dev/shm/aufs.xino'' @ (if dirperm then '',dirperm1'' else []))
          mountLabel)"

text \<open>The length of the working buffer: page size, less the label, less the offset.\<close>

definition aufsMount_buf :: "env \<Rightarrow> string \<Rightarrow> bool \<Rightarrow> int" where
  "aufsMount_buf E mountLabel dirperm =
     syscall_Getpagesize E - int (length mountLabel) - (54 + (if dirperm then 8 else 0))"

text \<open>The mount calls the engine is to make: the first mount, then one remount per branch left.\<close>

definition aufsMount_plan ::
  "env \<Rightarrow> string list \<Rightarrow> string \<Rightarrow> string \<Rightarrow> string \<Rightarrow> bool \<Rightarrow> call list" where
  "aufsMount_plan E ro rw target mountLabel dirperm =
     (let cap = nat (aufsMount_buf E mountLabel dirperm);
          buf = take cap (''br:'' @ rw @ ''=rw'');
          k = branches_fit cap (length buf) ro
      in first_mount_call E target mountLabel (buf @ concat (map branch_opt (take k ro))) dirperm
         # map (remount_call E target mountLabel) (drop k ro))"

subsection \<open>Sequences of \<open>Get\<close> and \<open>Put\<close>\<close>

datatype op = OpGet string | OpPut

text \<open>
  Run operations on the layer \<open>lid\<close> one after the other, each on the driver and the
  world the one before left. The result is \<open>None\<close> when an operation does not succeed.
\<close>

fun run_ops :: "env \<Rightarrow> string \<Rightarrow> op list \<Rightarrow> Driver \<Rightarrow> world \<Rightarrow> (Driver \<times> world) option" where
  "run_ops E lid [] a w = Some (a, w)"
| "run_ops E lid (OpGet mountLabel # ops) a w =
     (case Get E a w lid mountLabel of
        Some (Inr p, a', w') \<Rightarrow> run_ops E lid ops a' w'
      | _ \<Rightarrow> None)"
| "run_ops E lid (OpPut # ops) a w =
     (case Put E a w lid of
        (None, a', w') \<Rightarrow> run_ops E lid ops a' w'
      | _ \<Rightarrow> None)"

text \<open>
  \<open>balanced n ops\<close>: with \<open>n\<close> uses open, every \<open>Put\<close> of \<open>ops\<close> closes a use that is
  open when it runs, and none is left open at the end. \<open>balanced 0 ops\<close> are the
  sequences of matched \<open>Get\<close>/\<open>Put\<close> pairs, nested or in a row.
\<close>

fun balanced :: "nat \<Rightarrow> op list \<Rightarrow> bool" where
  "balanced n [] = (n = 0)"
| "balanced n (OpGet mountLabel # ops) = balanced (Suc n) ops"
| "balanced n (OpPut # ops) = (n > 0 \<and> balanced (n - 1) ops)"

text \<open>
  The invariant of the count of \<open>lid\<close> while \<open>n\<close> uses are open: no entry, or an
  entry that is at most \<open>n\<close> (read as a signed number) with \<open>n\<close> not zero.
\<close>

definition open_uses :: "nat \<Rightarrow> Driver \<Rightarrow> string \<Rightarrow> bool" where
  "open_uses n a lid =
     (case active a lid of None \<Rightarrow> True | Some c \<Rightarrow> sint c \<le> int n \<and> n > 0)"

subsection \<open>\<open>Remove\<close>\<close>

text \<open>An answer of a call that \<open>Remove\<close> does not tolerate: an error other than \<open>ENOENT\<close>.\<close>

definition fatal :: "errno option \<Rightarrow> bool" where
  "fatal r = (case r of None \<Rightarrow> False | Some e \<Rightarrow> e \<noteq> ENOENT)"

subsection \<open>The parent file\<close>

text \<open>
  The bytes that \<open>fmt.Fprintln\<close> writes for a chain, one call per id: each id and a
  line feed.
\<close>

definition chain_text :: "string list \<Rightarrow> string" where
  "chain_text chain = concat (map (\<lambda>i. i @ [LF]) chain)"

text \<open>
  The ids that a line of the parent file can hold and give back: not empty, without
  line feed, not ending in a carriage return, and short enough for the scanner.
\<close>

definition valid_id :: "string \<Rightarrow> bool" where
  "valid_id i = (i \<noteq> [] \<and> LF \<notin> set i \<and> last i \<noteq> CR \<and> length i < MaxScanTokenSize)"

subsection \<open>\<open>Init\<close>\<close>

text \<open>
  The lines of \<open>/proc/filesystems\<close> that the scanner delivers in the world \<open>w\<close>; none
  when the file cannot be opened.
\<close>

definition proc_filesystems_lines :: "env \<Rightarrow> world \<Rightarrow> string list" where
  "proc_filesystems_lines E w =
     (case os_Open E (calls w) ''/proc/filesystems'' of
        Inl err \<Rightarrow> []
      | Inr (data, rerr) \<Rightarrow> fst (Scanner_lines data rerr))"

text \<open>The calls that bootstrap a root when all of them succeed.\<close>

definition bootstrap_calls :: "string \<Rightarrow> call list" where
  "bootstrap_calls root =
     [MkdirAll root perm_0755,
      MkdirAll (Join [root, ''mnt'']) perm_0755,
      MkdirAll (Join [root, ''diff'']) perm_0755,
      MkdirAll (Join [root, ''layers'']) perm_0755,
      MakePrivate root]"

text \<open>
  Whether \<open>os.MkdirAll\<close> of the root, issued after the history \<open>h\<close>, answers with an
  error that \<open>os.IsExist\<close> accepts.
\<close>

definition root_exists :: "env \<Rightarrow> call list \<Rightarrow> string \<Rightarrow> bool" where
  "root_exists E h root =
     (case sys_result E h (MkdirAll root perm_0755) of
        None \<Rightarrow> False
      | Some x \<Rightarrow> IsExist (OsError x))"

text \<open>
  The bootstrap of one root, told by the answers of the system: a root reported as
  existing is left as it is after the one \<open>os.MkdirAll\<close>; otherwise the five calls are
  issued in order up to the first that fails, whose error is the result.
\<close>

definition bootstrap_root :: "env \<Rightarrow> string \<Rightarrow> world \<Rightarrow> error option \<times> world" where
  "bootstrap_root E root w =
     (if root_exists E (calls w) root
      then (None, w\<lparr>calls := calls w @ [MkdirAll root perm_0755]\<rparr>)
      else do_calls E (bootstrap_calls root) w)"

section \<open>A small system for the examples\<close>

text \<open>
  A container root \<open>/c\<close>, an image root \<open>/i\<close> and a remote root \<open>/mnt\<close> with the
  sub-partitions \<open>p0\<close> (whose \<open>layers/\<close> cannot be listed) and \<open>p1\<close>. Layer \<open>A\<close> has no
  parent, \<open>B\<close> has the parent \<open>A\<close> and is present under \<open>/c\<close>, \<open>/i\<close> and \<open>/mnt/p1\<close>,
  \<open>C\<close> lives under \<open>/mnt/p1\<close> only, \<open>D\<close> is listed under \<open>/i\<close> but its file is gone
  when it is opened, and the file of \<open>E\<close> may not be read. Every call succeeds, and a target is mounted when the last mount or
  unmount of it in the history was a mount.
\<close>

definition ex_driver :: Driver where
  "ex_driver = \<lparr>rootNFSImageLayers = ''/mnt'', rootLocalContainerLayers = ''/c'',
                 rootLocalImageLayers = ''/i'', active = Map.empty\<rparr>"

definition ex_world :: world where
  "ex_world = \<lparr>calls = [], enableDirpermLock = True, enableDirperm = True,
                backingFs = ''<unknown>''\<rparr>"

definition ex_file :: "string \<Rightarrow> FileInfo" where
  "ex_file n = \<lparr>Name = n, IsDir = False\<rparr>"

definition ex_dir :: "string \<Rightarrow> FileInfo" where
  "ex_dir n = \<lparr>Name = n, IsDir = True\<rparr>"

definition ex_ReadDir :: "string \<Rightarrow> errno + FileInfo list" where
  "ex_ReadDir p =
     (if p = ''/c/layers'' then Inr [ex_file ''B'']
      else if p = ''/i/layers'' then Inr [ex_file ''A'', ex_file ''B'', ex_file ''D'', ex_file ''E'']
      else if p = ''/mnt'' then Inr [ex_file ''README'', ex_dir ''p0'', ex_dir ''p1'']
      else if p = ''/mnt/p1/layers'' then Inr [ex_file ''B'', ex_file ''C'']
      else Inl 13)"

definition ex_Open :: "string \<Rightarrow> errno + (string \<times> errno option)" where
  "ex_Open p =
     (if p = ''/c/layers/B'' then Inr (''A'' @ [LF], None)
      else if p = ''/i/layers/A'' then Inr ([], None)
      else if p = ''/i/layers/B'' then Inr (''A'' @ [LF], None)
      else if p = ''/mnt/p1/layers/C'' then Inr (''B'' @ [LF] @ ''A'' @ [LF], None)
      else if p = ''/i/layers/E'' then Inl 13
      else if p = ''/proc/filesystems''
        then Inr (''nodev'' @ [CHR 0x09] @ ''sysfs'' @ [LF] @ ''nodev'' @ [CHR 0x09] @ ''aufs'' @ [LF], None)
      else Inl ENOENT)"

fun ex_Mounted :: "string \<Rightarrow> call list \<Rightarrow> bool \<Rightarrow> bool" where
  "ex_Mounted t [] m = m"
| "ex_Mounted t (Mount s t' f fl d # h) m = ex_Mounted t h (t' = t \<or> m)"
| "ex_Mounted t (Unmount t' # h) m = ex_Mounted t h (t' \<noteq> t \<and> m)"
| "ex_Mounted t (c # h) m = ex_Mounted t h m"

definition ex_env :: env where
  "ex_env = \<lparr>ioutil_ReadDir = (\<lambda>h. ex_ReadDir),
             os_Open = (\<lambda>h. ex_Open),
             mountpk_Mounted = (\<lambda>h t. Inr (ex_Mounted t h False)),
             ioutil_TempDir = (\<lambda>h d p. Inr (''/tmp/'' @ p @ ''1'')),
             graphdriver_GetFSMagic = (\<lambda>h p. Inr 0xEF53),
             sys_result = (\<lambda>h c. None),
             syscall_Getpagesize = 4096,
             label_FormatMountLabel = (\<lambda>src l. src),
             MsRemount = 32,
             FsMagicBtrfs = 0x9123683E,
             FsMagicAufs = 0x61756673,
             FsNames = (\<lambda>m. if m = 0xEF53 then Some ''extfs'' else None)\<rparr>"

text \<open>The same system with a page of 100 bytes, and with remounts that fail (\<open>EBUSY\<close>).\<close>

definition ex_env_small :: env where
  "ex_env_small = ex_env\<lparr>syscall_Getpagesize := 100\<rparr>"

definition ex_env_fail :: env where
  "ex_env_fail =
     ex_env_small\<lparr>sys_result :=
       (\<lambda>h c. case c of Mount s t f fl d \<Rightarrow> (if fl = 32 then Some 16 else None) | _ \<Rightarrow> None)\<rparr>"

text \<open>The example system where renaming \<open>/c/diff/B\<close> fails, and where \<open>os.RemoveAll\<close> fails.\<close>

definition ex_env_rename_fails :: env where
  "ex_env_rename_fails =
     ex_env\<lparr>sys_result :=
       (\<lambda>h c. case c of Rename s t \<Rightarrow> (if s = ''/c/diff/B'' then Some 16 else None) | _ \<Rightarrow> None)\<rparr>"

definition ex_env_removeall_fails :: env where
  "ex_env_removeall_fails =
     ex_env\<lparr>sys_result := (\<lambda>h c. case c of RemoveAll p \<Rightarrow> Some 13 | _ \<Rightarrow> None)\<rparr>"

text \<open>
  The example system with a file store for \<open>/i/layers/X\<close>: opening it delivers what
  the calls of the history wrote to it since it was last created. The image root
  also lists a layer whose name holds a line feed, with an empty parent file.
\<close>

fun file_bytes :: "string \<Rightarrow> call list \<Rightarrow> string \<Rightarrow> string" where
  "file_bytes f [] acc = acc"
| "file_bytes f (Create_file f' # h) acc = file_bytes f h (if f' = f then [] else acc)"
| "file_bytes f (Fprintln f' s # h) acc = file_bytes f h (if f' = f then acc @ s @ [LF] else acc)"
| "file_bytes f (c # h) acc = file_bytes f h acc"

definition ex_env_fs :: env where
  "ex_env_fs =
     ex_env\<lparr>ioutil_ReadDir :=
              (\<lambda>h p. if p = ''/i/layers'' then Inr [ex_file ''A'', ex_file (''a'' @ [LF] @ ''b'')]
                     else ex_ReadDir p),
            os_Open :=
              (\<lambda>h p. if p = ''/i/layers/X'' then Inr (file_bytes p h [], None)
                     else if p = ''/i/layers/a'' @ [LF] @ ''b'' then Inr ([], None)
                     else ex_Open p)\<rparr>"

text \<open>The example system on a kernel without aufs, and on a btrfs root.\<close>

definition ex_env_no_aufs :: env where
  "ex_env_no_aufs =
     ex_env\<lparr>os_Open := (\<lambda>h p. Inr (''nodev'' @ [CHR 0x09] @ ''sysfs'' @ [LF] @ ''ext4'' @ [LF], None))\<rparr>"

definition ex_env_btrfs :: env where
  "ex_env_btrfs = ex_env\<lparr>graphdriver_GetFSMagic := (\<lambda>h p. Inr 0x9123683E)\<rparr>"

text \<open>
  The example system where \<open>os.MkdirAll\<close> of either local root answers \<open>EEXIST\<close> (a
  dangling symbolic link is in its place), and where the directory \<open>diff\<close> of the
  container root cannot be created (\<open>EACCES\<close>).
\<close>

definition ex_env_exists :: env where
  "ex_env_exists =
     ex_env\<lparr>sys_result :=
       (\<lambda>h c. case c of
                MkdirAll p m \<Rightarrow>
                  (if p = ''/var/lib/docker-aufs/container-layers'' \<or>
                      p = ''/var/lib/docker-aufs/image-layers''
                   then Some EEXIST else None)
              | _ \<Rightarrow> None)\<rparr>"

definition ex_env_mkdir_fails :: env where
  "ex_env_mkdir_fails =
     ex_env\<lparr>sys_result :=
       (\<lambda>h c. case c of
                MkdirAll p m \<Rightarrow>
                  (if p = ''/var/lib/docker-aufs/container-layers/diff'' then Some 13 else None)
              | _ \<Rightarrow> None)\<rparr>"


section \<open>Lemmas about the model\<close>

subsection \<open>Looking layers up\<close>

lemma lookupId_eq:
  "lookupId targetId ids = (if targetId \<in> set ids then Some \<lparr>id' = targetId, rootPath = []\<rparr> else None)"
  by (induction ids) auto

lemma getIdDesc_local_id:
  "getIdDesc_local E w targetId paths = Some (Inr d) \<Longrightarrow> id' d = targetId"
  by (induction paths) (auto simp: lookupId_eq split: sum.splits if_splits)

lemma getIdDesc_remote_id:
  "getIdDesc_remote E w nfs targetId dirs = Some d \<Longrightarrow> id' d = targetId"
  by (induction dirs) (auto simp: lookupId_eq split: sum.splits if_splits)

lemma getIdDesc_id: "getIdDesc E a w targetId = Inr d \<Longrightarrow> id' d = targetId"
  unfolding getIdDesc_def
  by (auto simp: lookupId_eq split: option.splits sum.splits if_splits dest: getIdDesc_remote_id)

lemma getIdDesc_remote_find:
  "getIdDesc_remote E w nfs targetId dirs =
     (case find (remote_has E w nfs targetId) dirs of
        None \<Rightarrow> None
      | Some subdir \<Rightarrow> Some \<lparr>id' = targetId, rootPath = Join [nfs, subdir]\<rparr>)"
  by (induction dirs) (auto simp: remote_has_def lookupId_eq split: sum.splits)

subsection \<open>The loops of the mount engine\<close>

lemma branches_fit_le: "branches_fit cap used ro \<le> length ro"
  by (induction ro arbitrary: used) auto

lemma inner_unfold:
  "aufsMount_inner E ro target l lenb fm i buf w =
     (if i < length ro then
        (if fm then
           (if length buf + length (branch_opt (ro ! i)) > lenb then Inr (i, buf, w)
            else aufsMount_inner E ro target l lenb fm (Suc i) (buf @ branch_opt (ro ! i)) w)
         else
           (case do_call E (remount_call E target l (ro ! i)) w of
              (Some err, w') \<Rightarrow> Inl (err, w')
            | (None, w') \<Rightarrow> aufsMount_inner E ro target l lenb fm (Suc i) buf w'))
      else Inr (i, buf, w))"
  by (subst aufsMount_inner.simps) (simp add: branch_opt_def remount_call_def Let_def)

lemma inner_first:
  "i \<le> length ro \<Longrightarrow>
   aufsMount_inner E ro target l lenb True i buf w =
     Inr (i + branches_fit lenb (length buf) (drop i ro),
          buf @ concat (map branch_opt (take (branches_fit lenb (length buf) (drop i ro)) (drop i ro))),
          w)"
proof (induction "length ro - i" arbitrary: i buf)
  case 0
  then have "i = length ro" by simp
  then show ?case by (subst inner_unfold) simp
next
  case (Suc n)
  then have lt: "i < length ro" by simp
  then have d: "drop i ro = ro ! i # drop (Suc i) ro"
    by (simp add: Cons_nth_drop_Suc)
  have n: "n = length ro - Suc i" using Suc.hyps(2) by simp
  have le: "Suc i \<le> length ro" using lt by simp
  note IH = Suc.hyps(1) [OF n le]
  show ?case using lt
    by (subst inner_unfold) (simp add: d IH)
qed

lemma inner_remount:
  "i \<le> length ro \<Longrightarrow>
   aufsMount_inner E ro target l lenb False i buf w =
     (case do_calls E (map (remount_call E target l) (drop i ro)) w of
        (Some err, w') \<Rightarrow> Inl (err, w')
      | (None, w') \<Rightarrow> Inr (length ro, buf, w'))"
proof (induction "length ro - i" arbitrary: i w)
  case 0
  then have "i = length ro" by simp
  then show ?case by (subst inner_unfold) simp
next
  case (Suc n)
  then have lt: "i < length ro" by simp
  then have d: "drop i ro = ro ! i # drop (Suc i) ro"
    by (simp add: Cons_nth_drop_Suc)
  have n: "n = length ro - Suc i" using Suc.hyps(2) by simp
  have le: "Suc i \<le> length ro" using lt by simp
  note IH = Suc.hyps(1) [OF n le]
  show ?case using lt
    by (subst inner_unfold) (simp add: d IH split: prod.splits option.splits)
qed

lemma do_call_flags [simp]:
  "enableDirpermLock (snd (do_call E c w)) = enableDirpermLock w"
  "enableDirperm (snd (do_call E c w)) = enableDirperm w"
  "calls (snd (do_call E c w)) = calls w @ [c]"
  "fst (do_call E c w) = map_option OsError (sys_result E (calls w) c)"
  by (simp_all add: do_call_def)

lemma do_calls_flags [simp]:
  "enableDirpermLock (snd (do_calls E cs w)) = enableDirpermLock w"
  "enableDirperm (snd (do_calls E cs w)) = enableDirperm w"
proof -
  have "enableDirpermLock (snd (do_calls E cs w)) = enableDirpermLock w \<and>
        enableDirperm (snd (do_calls E cs w)) = enableDirperm w"
  proof (induction cs arbitrary: w)
    case Nil
    show ?case by simp
  next
    case (Cons c cs)
    show ?case
    proof (cases "sys_result E (calls w) c")
      case None
      then show ?thesis using Cons [of "w\<lparr>calls := calls w @ [c]\<rparr>"]
        by (simp add: do_call_def)
    next
      case (Some x)
      then show ?thesis by (simp add: do_call_def)
    qed
  qed
  then show "enableDirpermLock (snd (do_calls E cs w)) = enableDirpermLock w"
    and "enableDirperm (snd (do_calls E cs w)) = enableDirperm w" by simp_all
qed

lemma useDirperm_again: "enableDirpermLock w \<Longrightarrow> useDirperm E w = (enableDirperm w, w)"
  by (simp add: useDirperm_def)

lemma call_TempDir_flags [simp]:
  "enableDirpermLock (snd (call_TempDir E d p w)) = enableDirpermLock w"
  "enableDirperm (snd (call_TempDir E d p w)) = enableDirperm w"
  by (simp_all add: call_TempDir_def split: sum.splits)

lemma useDirperm_probe_lock: "enableDirpermLock (useDirperm_probe E w) = enableDirpermLock w"
  unfolding useDirperm_probe_def
  by (auto split: prod.splits sum.splits option.splits simp: Let_def do_call_def call_TempDir_def)

lemma useDirperm_once:
  "useDirperm E w = (d, w1) \<Longrightarrow> enableDirpermLock w1 \<and> enableDirperm w1 = d"
  by (auto simp: useDirperm_def Let_def useDirperm_probe_lock split: if_splits)

lemma loop_remount:
  "i \<le> length ro \<Longrightarrow>
   aufsMount_loop E ro target l lenb False i buf w =
     Some (do_calls E (map (remount_call E target l) (drop i ro)) w)"
  by (subst aufsMount_loop.simps) (simp add: inner_remount split: prod.splits option.splits)

lemma loop_first:
  assumes "enableDirpermLock w"
  shows "aufsMount_loop E ro target l lenb True 0 buf w =
     Some (do_calls E
       (first_mount_call E target l
          (buf @ concat (map branch_opt (take (branches_fit lenb (length buf) ro) ro)))
          (enableDirperm w)
        # map (remount_call E target l) (drop (branches_fit lenb (length buf) ro) ro)) w)"
proof -
  let ?k = "branches_fit lenb (length buf) ro"
  let ?first = "first_mount_call E target l (buf @ concat (map branch_opt (take ?k ro))) (enableDirperm w)"
  have k: "?k \<le> length ro" by (rule branches_fit_le)
  show ?thesis
  proof (cases "do_call E ?first w")
    case (Pair r w3)
    show ?thesis
    proof (cases r)
      case (Some err)
      with Pair show ?thesis
        by (subst aufsMount_loop.simps)
           (simp add: inner_first useDirperm_again [OF assms] first_mount_call_def)
    next
      case None
      with Pair k show ?thesis
        by (subst aufsMount_loop.simps)
           (simp add: inner_first useDirperm_again [OF assms] first_mount_call_def loop_remount)
    qed
  qed
qed

lemma aufsMount_eq:
  assumes "useDirperm E w = (d, w1)"
  shows "aufsMount E ro rw target l w =
     (if aufsMount_buf E l d < 0 then Some (Some PanicMakeslice, w1)
      else (case do_calls E (aufsMount_plan E ro rw target l d) w1 of
              (None, w2) \<Rightarrow> Some (None, w2)
            | (Some err, w2) \<Rightarrow> Some (Some err, snd (do_call E (Unmount target) w2))))"
proof -
  from useDirperm_once [OF assms] have lock: "enableDirpermLock w1" and d: "enableDirperm w1 = d"
    by simp_all
  show ?thesis
    unfolding aufsMount_def
    by (simp add: assms aufsMount_buf_def aufsMount_plan_def Let_def loop_first [OF lock] d
             split: prod.splits option.splits)
qed

lemma do_calls_ok: "do_calls E cs w = (None, w') \<Longrightarrow> calls w' = calls w @ cs"
proof (induction cs arbitrary: w)
  case Nil
  then show ?case by simp
next
  case (Cons c cs)
  then show ?case
    by (cases "do_call E c w") (auto split: option.splits simp: do_call_def)
qed

lemma do_calls_ok_results:
  "do_calls E cs w = (None, w') \<Longrightarrow> j < length cs \<Longrightarrow>
   sys_result E (calls w @ take j cs) (cs ! j) = None"
proof (induction cs arbitrary: w j)
  case Nil
  then show ?case by simp
next
  case (Cons c cs)
  obtain r w1 where c: "do_call E c w = (r, w1)" by (cases "do_call E c w")
  with Cons.prems have r: "r = None" and rest: "do_calls E cs w1 = (None, w')"
    by (auto split: option.splits)
  from c r have res: "sys_result E (calls w) c = None" and w1: "calls w1 = calls w @ [c]"
    by (auto simp: do_call_def)
  show ?case
  proof (cases j)
    case 0
    with res show ?thesis by simp
  next
    case (Suc j')
    with Cons.prems have "j' < length cs" by simp
    from Cons.IH [OF rest this] w1 Suc show ?thesis by simp
  qed
qed

lemma do_calls_err:
  "do_calls E cs w = (Some err, w') \<Longrightarrow>
   \<exists>j x. j < length cs \<and> calls w' = calls w @ take (Suc j) cs \<and>
         sys_result E (calls w @ take j cs) (cs ! j) = Some x \<and> err = OsError x"
proof (induction cs arbitrary: w)
  case Nil
  then show ?case by simp
next
  case (Cons c cs)
  obtain r w1 where c: "do_call E c w = (r, w1)" by (cases "do_call E c w")
  show ?case
  proof (cases r)
    case (Some e)
    with c Cons.prems have "err = e" "w' = w1" by auto
    with c Some have "calls w' = calls w @ take (Suc 0) (c # cs) \<and>
        (\<exists>x. sys_result E (calls w @ take 0 (c # cs)) ((c # cs) ! 0) = Some x \<and> err = OsError x)"
      by (auto simp: do_call_def)
    then obtain x where "calls w' = calls w @ take (Suc 0) (c # cs)"
      "sys_result E (calls w @ take 0 (c # cs)) ((c # cs) ! 0) = Some x" "err = OsError x"
      by blast
    then have "0 < length (c # cs) \<and> calls w' = calls w @ take (Suc 0) (c # cs) \<and>
      sys_result E (calls w @ take 0 (c # cs)) ((c # cs) ! 0) = Some x \<and> err = OsError x"
      by simp
    then show ?thesis by blast
  next
    case None
    with c Cons.prems have rest: "do_calls E cs w1 = (Some err, w')" by simp
    from c None have w1: "calls w1 = calls w @ [c]" by (auto simp: do_call_def)
    from Cons.IH [OF rest] obtain j x where
      "j < length cs" "calls w' = calls w1 @ take (Suc j) cs"
      "sys_result E (calls w1 @ take j cs) (cs ! j) = Some x" "err = OsError x"
      by blast
    with w1 have "Suc j < length (c # cs) \<and> calls w' = calls w @ take (Suc (Suc j)) (c # cs) \<and>
      sys_result E (calls w @ take (Suc j) (c # cs)) ((c # cs) ! Suc j) = Some x \<and> err = OsError x"
      by simp
    then show ?thesis by blast
  qed
qed





lemma aufsMount_returns: "\<exists>r. aufsMount E ro rw target l w = Some r"
proof (cases "useDirperm E w")
  case (Pair d w1)
  show ?thesis
    by (simp add: aufsMount_eq [OF Pair] split: prod.splits option.splits)
qed

subsection \<open>The example system\<close>

lemma ex_paths:
  "Join [''/c'', ''layers''] = ''/c/layers''"
  "Join [''/i'', ''layers''] = ''/i/layers''"
  "Join [''/x'', ''layers''] = ''/x/layers''"
  "Join [''/mnt'', ''p0'', ''layers''] = ''/mnt/p0/layers''"
  "Join [''/mnt'', ''p1'', ''layers''] = ''/mnt/p1/layers''"
  "Join [''/mnt'', ''p1''] = ''/mnt/p1''"
  by code_simp+

lemma ex_loadIds:
  "loadIds ex_env w ''/c/layers'' = Inr [''B'']"
  "loadIds ex_env w ''/i/layers'' = Inr [''A'', ''B'', ''D'', ''E'']"
  "loadIds ex_env w ''/x/layers'' = Inl (OsError 13)"
  "loadIds ex_env w ''/mnt/p0/layers'' = Inl (OsError 13)"
  "loadIds ex_env w ''/mnt/p1/layers'' = Inr [''B'', ''C'']"
  "getChildDirs ex_env w ''/mnt'' = Inr [''p0'', ''p1'']"
  by (simp_all add: loadIds_def getChildDirs_def getChilds_def ex_env_def ex_ReadDir_def
        ex_file_def ex_dir_def)

lemma ex_getIdDesc:
  "getIdDesc ex_env ex_driver w ''A'' = Inr \<lparr>id' = ''A'', rootPath = ''/i''\<rparr>"
  "getIdDesc ex_env ex_driver w ''B'' = Inr \<lparr>id' = ''B'', rootPath = ''/c''\<rparr>"
  "getIdDesc ex_env ex_driver w ''C'' = Inr \<lparr>id' = ''C'', rootPath = ''/mnt/p1''\<rparr>"
  "getIdDesc ex_env ex_driver w ''D'' = Inr \<lparr>id' = ''D'', rootPath = ''/i''\<rparr>"
  "getIdDesc ex_env ex_driver w ''E'' = Inr \<lparr>id' = ''E'', rootPath = ''/i''\<rparr>"
  "getIdDesc ex_env ex_driver w ''Z'' = Inl ErrUnknownID"
  by (simp_all add: getIdDesc_def ex_driver_def ex_paths ex_loadIds lookupId_eq)

subsection \<open>\<open>mount\<close> and \<open>Get\<close>\<close>

lemma mount_returns: "\<exists>r. mount E a w d l = Some r"
proof -
  obtain r where "aufsMount E (case getParentLayerPaths E a w d of Inr ls \<Rightarrow> ls | Inl e \<Rightarrow> [])
      (Join [rootPath d, ''diff'', id' d]) (Join [rootPath d, ''mnt'', id' d]) l w = Some r"
    using aufsMount_returns by blast
  then show ?thesis
    unfolding mount_def
    by (auto simp: Let_def split: sum.splits option.splits prod.splits)
qed

lemma getIdDesc_active [simp]:
  "getIdDesc E (a\<lparr>active := m\<rparr>) w lid = getIdDesc E a w lid"
  by (simp add: getIdDesc_def split: option.splits sum.splits)

subsection \<open>The example system: layers and mounts\<close>

lemma ex_paths3:
  "Join [''/i'', ''layers'', ''A''] = ''/i/layers/A''"
  "Join [''/i'', ''diff'', ''A''] = ''/i/diff/A''"
  "Join [''/i'', ''mnt'', ''A''] = ''/i/mnt/A''"
  "Join [''/c'', ''layers'', ''B''] = ''/c/layers/B''"
  "Join [''/c'', ''diff'', ''B''] = ''/c/diff/B''"
  "Join [''/c'', ''mnt'', ''B''] = ''/c/mnt/B''"
  "Join [''/i'', ''layers'', ''D''] = ''/i/layers/D''"
  "Join [''/i'', ''diff'', ''D''] = ''/i/diff/D''"
  "Join [''/i'', ''layers'', ''E''] = ''/i/layers/E''"
  by code_simp+

lemma ex_getParentIds:
  "getParentIds ex_env w ''/i'' ''A'' = ([], None)"
  "getParentIds ex_env w ''/c'' ''B'' = ([''A''], None)"
  "getParentIds ex_env w ''/i'' ''D'' = ([], Some (OsError ENOENT))"
  by (simp_all add: getParentIds_def ex_paths3 ex_env_def ex_Open_def Scanner_lines.simps
        MaxScanTokenSize_def LF_def CR_def dropCR_def)

lemma ex_useDirperm: "useDirperm ex_env ex_world = (True, ex_world)"
  by (simp add: useDirperm_def ex_world_def)

lemma ex_mount_B:
  "mount ex_env ex_driver ex_world \<lparr>id' = ''B'', rootPath = ''/c''\<rparr> [] =
     Some (None, ex_world\<lparr>calls :=
       [Mount ''none'' ''/c/mnt/B'' ''aufs'' 0
          ''br:/c/diff/B=rw:/i/diff/A=ro+wh,dio,xino=/dev/shm/aufs.xino,dirperm1'']\<rparr>)"
proof -
  have m: "mounted ex_env ex_world \<lparr>id' = ''B'', rootPath = ''/c''\<rparr> = Inr False"
    by (simp add: mounted_def ex_paths3 ex_env_def ex_world_def)
  have p: "getParentLayerPaths ex_env ex_driver ex_world \<lparr>id' = ''B'', rootPath = ''/c''\<rparr> =
      Inr [''/i/diff/A'']"
    by (simp add: getParentLayerPaths_def ex_getParentIds ex_getIdDesc ex_paths3)
  have a: "aufsMount ex_env [''/i/diff/A''] ''/c/diff/B'' ''/c/mnt/B'' [] ex_world =
      Some (None, ex_world\<lparr>calls :=
       [Mount ''none'' ''/c/mnt/B'' ''aufs'' 0
          ''br:/c/diff/B=rw:/i/diff/A=ro+wh,dio,xino=/dev/shm/aufs.xino,dirperm1'']\<rparr>)"
    by (subst aufsMount_eq [OF ex_useDirperm])
       (simp add: aufsMount_buf_def aufsMount_plan_def first_mount_call_def remount_call_def
          branch_opt_def do_call_def ex_env_def ex_world_def)
  show ?thesis
    by (simp add: mount_def m p a ex_paths3)
qed

lemma ex_chain:
  "getParentIds ex_env w (rootPath \<lparr>id' = ''A'', rootPath = ''/i''\<rparr>) ''A'' = ([], None)"
  "getParentIds ex_env w (rootPath \<lparr>id' = ''B'', rootPath = ''/c''\<rparr>) ''B'' = ([''A''], None)"
  by (simp_all add: ex_getParentIds)

lemma ex_active: "active ex_driver = Map.empty"
  by (simp add: ex_driver_def)

subsection \<open>The reference count\<close>

lemma sint_succ_le: "sint ((c :: 64 word) + 1) \<le> sint c + 1"
proof -
  have "sint (c + 1) = signed_take_bit 63 (sint c + 1)"
    by (simp add: sint_word_ariths)
  moreover have "- (2 ^ 63) \<le> sint c"
    using sint_ge [of c] by simp
  ultimately show ?thesis
    by (simp add: signed_take_bit_eq_take_bit_shift take_bit_eq_mod zmod_le_nonneg_dividend)
qed

lemma sint_pred: "1 < sint (c :: 64 word) \<Longrightarrow> sint (c - 1) = sint c - 1"
proof -
  assume "1 < sint c"
  moreover have "sint c < 2 ^ 63" using sint_lt [of c] by simp
  moreover have "sint (c - 1) = signed_take_bit 63 (sint c - 1)"
    by (simp add: sint_word_ariths)
  ultimately show ?thesis
    by (simp add: signed_take_bit_int_eq_self)
qed

lemma Get_active:
  "Get E a w lid l = Some (Inr p, a', w') \<Longrightarrow>
   active a' = (active a)(lid \<mapsto> active_count a lid + 1)"
  unfolding Get_def
  by (auto simp: Let_def split: sum.splits prod.splits if_splits option.splits)

lemma Put_eq:
  assumes "getIdDesc E a w lid = Inr d"
  shows "Put E a w lid =
     (if sint (active_count a lid) > 1
      then (None, a\<lparr>active := (active a)(lid \<mapsto> active_count a lid - 1)\<rparr>, w)
      else (None, a\<lparr>active := (active a)(lid := None)\<rparr>,
            if fst (getParentIds E w (rootPath d) lid) \<noteq> [] then snd (unmount E w d) else w))"
  using assms getIdDesc_id [OF assms]
  by (simp add: Put_def Let_def)

lemma Put_active:
  "Put E a w lid = (None, a', w') \<Longrightarrow>
   active a' = (if sint (active_count a lid) > 1
                then (active a)(lid \<mapsto> active_count a lid - 1)
                else (active a)(lid := None))"
proof (cases "getIdDesc E a w lid")
  case (Inl err)
  assume "Put E a w lid = (None, a', w')"
  with Inl show ?thesis by (simp add: Put_def)
next
  case (Inr d)
  assume "Put E a w lid = (None, a', w')"
  with Put_eq [OF Inr] show ?thesis by (auto split: if_splits)
qed

lemma open_uses_count: "open_uses n a lid \<Longrightarrow> sint (active_count a lid) \<le> int n"
  by (auto simp: open_uses_def active_count_def split: option.splits)

lemma balanced_run_ops:
  "balanced n ops \<Longrightarrow> open_uses n a lid \<Longrightarrow> run_ops E lid ops a w = Some (a', w') \<Longrightarrow>
   active a' lid = None"
proof (induction ops arbitrary: n a w)
  case Nil
  then show ?case by (auto simp: open_uses_def split: option.splits)
next
  case (Cons x ops)
  show ?case
  proof (cases x)
    case (OpGet l)
    with Cons.prems obtain p a1 w1 where g: "Get E a w lid l = Some (Inr p, a1, w1)"
      and r: "run_ops E lid ops a1 w1 = Some (a', w')"
      by (auto split: option.splits sum.splits prod.splits)
    from Get_active [OF g] have "active a1 lid = Some (active_count a lid + 1)" by simp
    moreover have "sint (active_count a lid + 1) \<le> int (Suc n)"
      using sint_succ_le [of "active_count a lid"] open_uses_count [OF Cons.prems(2)] by simp
    ultimately have ou: "open_uses (Suc n) a1 lid" by (simp add: open_uses_def)
    from Cons.prems(1) OpGet have b: "balanced (Suc n) ops" by simp
    from b ou r show ?thesis by (rule Cons.IH)
  next
    case OpPut
    with Cons.prems obtain a1 w1 where p: "Put E a w lid = (None, a1, w1)"
      and r: "run_ops E lid ops a1 w1 = Some (a', w')"
      by (auto split: option.splits prod.splits)
    from Cons.prems(1) OpPut have n: "n > 0" and b: "balanced (n - 1) ops" by simp_all
    have ou: "open_uses (n - 1) a1 lid"
    proof (cases "sint (active_count a lid) > 1")
      case True
      with Put_active [OF p] have "active a1 lid = Some (active_count a lid - 1)" by simp
      moreover have "sint (active_count a lid - 1) \<le> int (n - 1)"
        using sint_pred [OF True] open_uses_count [OF Cons.prems(2)] n by simp
      moreover have "n - 1 > 0"
        using True open_uses_count [OF Cons.prems(2)] by simp
      ultimately show ?thesis by (simp add: open_uses_def)
    next
      case False
      with Put_active [OF p] have "active a1 lid = None" by simp
      then show ?thesis by (simp add: open_uses_def)
    qed
    from b ou r show ?thesis by (rule Cons.IH)
  qed
qed

lemma unmount_calls:
  "calls (snd (unmount E w d)) =
     calls w @ (if mounted E w d = Inr True then [Unmount (Join [rootPath d, ''mnt'', id' d])] else [])"
  by (auto simp: unmount_def split: sum.splits)

lemma ex_mounted_B:
  "mounted ex_env ex_world \<lparr>id' = ''B'', rootPath = ''/c''\<rparr> = Inr False"
  "mounted ex_env (ex_world\<lparr>calls := [Mount s ''/c/mnt/B'' f fl dt]\<rparr>)
     \<lparr>id' = ''B'', rootPath = ''/c''\<rparr> = Inr True"
  by (simp_all add: mounted_def ex_paths3 ex_env_def ex_world_def)

lemma ex_sys_result: "sys_result ex_env h c = None"
  by (simp add: ex_env_def)

subsection \<open>\<open>Remove\<close>\<close>

lemma run_deferred_calls: "calls (run_deferred E ps w) = calls w @ map RemoveAll ps"
  by (induction ps arbitrary: w) simp_all

lemma Remove_driver: "fst (snd (Remove E a w lid)) = a"
  unfolding Remove_def
  by (simp split: sum.splits prod.splits option.splits)

lemma unmount_ok_calls:
  "unmount E w d = (None, w0) \<Longrightarrow>
   calls w0 = calls w @ (if mounted E w d = Inr True
                         then [Unmount (Join [rootPath d, ''mnt'', id' d])] else [])"
  using unmount_calls [of E w d] by simp

lemma Remove_loop_step:
  "Remove_loop E d (p # ps) deferred w =
     (if fatal (sys_result E (calls w)
                  (Rename (Join [rootPath d, p, id' d]) (Join [rootPath d, p, id' d @ ''-removing''])))
      then (map_option OsError
              (sys_result E (calls w)
                 (Rename (Join [rootPath d, p, id' d]) (Join [rootPath d, p, id' d @ ''-removing'']))),
            deferred,
            w\<lparr>calls := calls w @
              [Rename (Join [rootPath d, p, id' d]) (Join [rootPath d, p, id' d @ ''-removing''])]\<rparr>)
      else Remove_loop E d ps (Join [rootPath d, p, id' d @ ''-removing''] # deferred)
             (w\<lparr>calls := calls w @
              [Rename (Join [rootPath d, p, id' d]) (Join [rootPath d, p, id' d @ ''-removing''])]\<rparr>))"
  by (cases "sys_result E (calls w)
                  (Rename (Join [rootPath d, p, id' d]) (Join [rootPath d, p, id' d @ ''-removing'']))")
     (simp_all add: do_call_def fatal_def Let_def)

lemma Remove_after_unmount:
  assumes "getIdDesc E a w lid = Inr d" and "unmount E w d = (None, w0)"
  shows "Remove E a w lid =
     (case Remove_loop E d [''mnt'', ''diff''] [] w0 of
        (Some err, deferred, w2) \<Rightarrow> (Some err, a, run_deferred E deferred w2)
      | (None, deferred, w2) \<Rightarrow>
          (if fatal (sys_result E (calls w2) (Remove_file (Join [rootPath d, ''layers'', id' d])))
           then map_option OsError
                  (sys_result E (calls w2) (Remove_file (Join [rootPath d, ''layers'', id' d])))
           else None,
           a,
           run_deferred E deferred
             (w2\<lparr>calls := calls w2 @ [Remove_file (Join [rootPath d, ''layers'', id' d])]\<rparr>)))"
  using assms
  unfolding Remove_def
  by (cases "Remove_loop E d [''mnt'', ''diff''] [] w0")
     (auto simp: do_call_def fatal_def split: option.splits)

lemma loadIds_sys_result [simp]:
  "loadIds (E\<lparr>sys_result := f\<rparr>) w p = loadIds E w p"
  "getChildDirs (E\<lparr>sys_result := f\<rparr>) w p = getChildDirs E w p"
  by (simp_all add: loadIds_def getChildDirs_def getChilds_def)

lemma getIdDesc_local_sys_result [simp]:
  "getIdDesc_local (E\<lparr>sys_result := f\<rparr>) w lid paths = getIdDesc_local E w lid paths"
  by (induction paths) (simp_all split: sum.splits option.splits)

lemma getIdDesc_remote_sys_result [simp]:
  "getIdDesc_remote (E\<lparr>sys_result := f\<rparr>) w nfs lid dirs = getIdDesc_remote E w nfs lid dirs"
  by (induction dirs) (simp_all split: sum.splits option.splits)

lemma getIdDesc_sys_result [simp]:
  "getIdDesc (E\<lparr>sys_result := f\<rparr>) a w lid = getIdDesc E a w lid"
  by (simp add: getIdDesc_def del: getIdDesc_local.simps getIdDesc_remote.simps
        split: option.splits sum.splits)

lemma mounted_sys_result [simp]:
  "mounted (E\<lparr>sys_result := f\<rparr>) w d = mounted E w d"
  by (simp add: mounted_def)

lemma ex_paths4:
  "Join [''/c'', ''mnt'', ''B-removing''] = ''/c/mnt/B-removing''"
  "Join [''/c'', ''diff'', ''B-removing''] = ''/c/diff/B-removing''"
  by code_simp+

lemma ex_unmount_B:
  "unmount (ex_env\<lparr>sys_result := f\<rparr>) ex_world \<lparr>id' = ''B'', rootPath = ''/c''\<rparr> = (None, ex_world)"
  "unmount ex_env ex_world \<lparr>id' = ''B'', rootPath = ''/c''\<rparr> = (None, ex_world)"
  by (simp_all add: unmount_def ex_mounted_B)

lemma ex_calls: "calls ex_world = []"
  by (simp add: ex_world_def)

subsection \<open>The parent file: scanning and \<open>Create\<close>\<close>

lemma Scanner_lines_Nil: "Scanner_lines [] rerr = ([], map_option OsError rerr)"
  by (subst Scanner_lines.simps) (simp add: MaxScanTokenSize_def)

lemma Scanner_lines_line:
  assumes "LF \<notin> set line" and "length line < MaxScanTokenSize"
  shows "Scanner_lines (line @ LF # rest) rerr =
           (case Scanner_lines rest rerr of (ts, e) \<Rightarrow> (dropCR line # ts, e))"
proof -
  have t: "takeWhile (\<lambda>c. c \<noteq> LF) (line @ LF # rest) = line"
    using assms(1) by (induction line) auto
  have d: "dropWhile (\<lambda>c. c \<noteq> LF) (line @ LF # rest) = LF # rest"
    using assms(1) by (induction line) auto
  show ?thesis
    using assms(2) by (subst Scanner_lines.simps) (simp add: t d Let_def del: takeWhile_append dropWhile_append)
qed

lemma dropCR_valid: "valid_id i \<Longrightarrow> dropCR i = i"
  by (simp add: valid_id_def dropCR_def)

lemma Scanner_lines_chain_text:
  "\<forall>i \<in> set chain. valid_id i \<Longrightarrow> Scanner_lines (chain_text chain) None = (chain, None)"
proof (induction chain)
  case Nil
  show ?case by (simp add: chain_text_def Scanner_lines_Nil)
next
  case (Cons i chain)
  then have v: "valid_id i" and IH: "Scanner_lines (chain_text chain) None = (chain, None)"
    by simp_all
  have "chain_text (i # chain) = i @ LF # chain_text chain"
    by (simp add: chain_text_def)
  then show ?case
    using v IH by (simp add: Scanner_lines_line valid_id_def dropCR_valid [OF v])
qed

lemma getParentIds_chain_text:
  assumes "os_Open E (calls w) (Join [root, ''layers'', lid]) = Inr (chain_text chain, None)"
      and "\<forall>i \<in> set chain. valid_id i"
  shows "getParentIds E w root lid = (chain, None)"
proof -
  have "filter (\<lambda>t. t \<noteq> []) chain = chain"
    using assms(2) by (simp add: valid_id_def filter_id_conv)
  then show ?thesis
    using assms by (simp add: getParentIds_def Scanner_lines_chain_text)
qed

lemma do_call_ok: "do_call E c w = (None, w') \<Longrightarrow> w' = w\<lparr>calls := calls w @ [c]\<rparr>"
  by (auto simp: do_call_def)

lemma createDirsFor_ok:
  assumes "createDirsFor E a w lid img = (Inr r, w1)"
  shows "r = rootLocalLayers a img \<and>
         w1 = w\<lparr>calls := calls w @ [MkdirAll (Join [r, ''mnt'', lid]) perm_0755,
                                     MkdirAll (Join [r, ''diff'', lid]) perm_0755]\<rparr>"
proof -
  let ?root = "rootLocalLayers a img"
  obtain r1 w1' where c1: "do_call E (MkdirAll (Join [?root, ''mnt'', lid]) perm_0755) w = (r1, w1')"
    by (cases "do_call E (MkdirAll (Join [?root, ''mnt'', lid]) perm_0755) w")
  obtain r2 w2' where c2: "do_call E (MkdirAll (Join [?root, ''diff'', lid]) perm_0755) w1' = (r2, w2')"
    by (cases "do_call E (MkdirAll (Join [?root, ''diff'', lid]) perm_0755) w1'")
  from assms c1 have r1: "r1 = None"
    by (cases r1) (simp_all add: createDirsFor_def Let_def)
  from assms c1 c2 r1 have r2: "r2 = None"
    by (cases r2) (simp_all add: createDirsFor_def Let_def)
  from assms c1 c2 r1 r2 have "r = ?root" "w1 = w2'"
    by (simp_all add: createDirsFor_def Let_def)
  moreover from do_call_ok [OF c1 [unfolded r1]] do_call_ok [OF c2 [unfolded r2]]
  have "w2' = w\<lparr>calls := calls w @ [MkdirAll (Join [?root, ''mnt'', lid]) perm_0755,
                                     MkdirAll (Join [?root, ''diff'', lid]) perm_0755]\<rparr>"
    by simp
  ultimately show ?thesis by simp
qed

lemma Create_loop_ok:
  "Create_loop E f ids w = (None, w') \<Longrightarrow> w' = w\<lparr>calls := calls w @ map (Fprintln f) ids\<rparr>"
proof (induction ids arbitrary: w)
  case Nil
  then show ?case by simp
next
  case (Cons i ids)
  obtain r w1 where c: "do_call E (Fprintln f i) w = (r, w1)"
    by (cases "do_call E (Fprintln f i) w")
  with Cons.prems have r: "r = None" by (cases r) simp_all
  with c Cons.prems have "Create_loop E f ids w1 = (None, w')" by simp
  from Cons.IH [OF this] do_call_ok [OF c [unfolded r]] show ?case by simp
qed

lemma ex_paths5:
  "Join [''/i'', ''mnt'', ''X''] = ''/i/mnt/X''"
  "Join [''/i'', ''diff'', ''X''] = ''/i/diff/X''"
  "Join [''/i'', ''layers'', ''X''] = ''/i/layers/X''"
  "Join [''/i'', ''layers'', ''a'' @ [LF] @ ''b''] = ''/i/layers/a'' @ [LF] @ ''b''"
  by code_simp+

lemma ex_fs_getIdDesc:
  "getIdDesc ex_env_fs ex_driver w ''B'' = Inr \<lparr>id' = ''B'', rootPath = ''/c''\<rparr>"
  "getIdDesc ex_env_fs ex_driver w (''a'' @ [LF] @ ''b'') =
     Inr \<lparr>id' = ''a'' @ [LF] @ ''b'', rootPath = ''/i''\<rparr>"
  by (simp_all add: getIdDesc_def ex_driver_def ex_paths loadIds_def getChilds_def
        ex_env_fs_def ex_env_def ex_ReadDir_def ex_file_def LF_def)

lemma ex_fs_getParentIds:
  "getParentIds ex_env_fs w ''/c'' ''B'' = ([''A''], None)"
  "getParentIds ex_env_fs w ''/i'' (''a'' @ [LF] @ ''b'') = ([], None)"
proof -
  show "getParentIds ex_env_fs w ''/c'' ''B'' = ([''A''], None)"
    by (simp add: getParentIds_def ex_paths3 ex_env_fs_def ex_env_def ex_Open_def
          Scanner_lines.simps MaxScanTokenSize_def LF_def CR_def dropCR_def)
  have "os_Open ex_env_fs (calls w) (''/i/layers/a'' @ [LF] @ ''b'') = Inr ([], None)"
    by (simp add: ex_env_fs_def)
  then show "getParentIds ex_env_fs w ''/i'' (''a'' @ [LF] @ ''b'') = ([], None)"
    by (simp only: getParentIds_def ex_paths5) (simp add: Scanner_lines_Nil)
qed

lemma ex_fs_sys_result: "sys_result ex_env_fs h c = None"
  by (simp add: ex_env_fs_def ex_env_def)

lemma ex_roots:
  "rootLocalImageLayers ex_driver = ''/i''"
  "rootLocalContainerLayers ex_driver = ''/c''"
  "rootNFSImageLayers ex_driver = ''/mnt''"
  by (simp_all add: ex_driver_def)

lemma ex_fs_Create_B:
  "Create ex_env_fs ex_driver ex_world ''X'' ''B'' True =
     (None, ex_world\<lparr>calls :=
        [MkdirAll ''/i/mnt/X'' perm_0755, MkdirAll ''/i/diff/X'' perm_0755,
         Create_file ''/i/layers/X'', Fprintln ''/i/layers/X'' ''B'',
         Fprintln ''/i/layers/X'' ''A'', Close_file ''/i/layers/X'']\<rparr>)"
  by (simp add: Create_def createDirsFor_def rootLocalLayers_def do_call_def ex_fs_sys_result
        ex_fs_getIdDesc ex_fs_getParentIds ex_paths5 ex_calls ex_roots Let_def)

lemma ex_fs_Create_lf:
  "Create ex_env_fs ex_driver ex_world ''X'' (''a'' @ [LF] @ ''b'') True =
     (None, ex_world\<lparr>calls :=
        [MkdirAll ''/i/mnt/X'' perm_0755, MkdirAll ''/i/diff/X'' perm_0755,
         Create_file ''/i/layers/X'', Fprintln ''/i/layers/X'' (''a'' @ [LF] @ ''b''),
         Close_file ''/i/layers/X'']\<rparr>)"
  using ex_fs_getIdDesc(2) ex_fs_getParentIds(2)
  by (simp add: Create_def createDirsFor_def rootLocalLayers_def do_call_def ex_fs_sys_result
        ex_paths5 ex_calls ex_roots Let_def)

subsection \<open>\<open>Init\<close>\<close>

lemma supportsAufs_eq:
  "supportsAufs E w =
     (let w1 = w\<lparr>calls := calls w @ [Exec_Run ''modprobe'' [''aufs'']]\<rparr>
      in case os_Open E (calls w1) ''/proc/filesystems'' of
           Inl err \<Rightarrow> (Some (OsError err), w1)
         | Inr (data, rerr) \<Rightarrow>
             (if \<exists>line \<in> set (proc_filesystems_lines E w1). Contains line ''aufs''
              then None else Some ErrAufsNotSupported, w1))"
  by (auto simp: supportsAufs_def do_call_def Let_def proc_filesystems_lines_def list_ex_iff
           split: sum.splits prod.splits)

lemma supportsAufs_None_iff:
  "fst (supportsAufs E w) = None \<longleftrightarrow>
     (\<exists>line \<in> set (proc_filesystems_lines E
        (w\<lparr>calls := calls w @ [Exec_Run ''modprobe'' [''aufs'']]\<rparr>)). Contains line ''aufs'')"
  by (auto simp: supportsAufs_eq Let_def proc_filesystems_lines_def split: sum.splits prod.splits)

lemma supportsAufs_world:
  "snd (supportsAufs E w) = w\<lparr>calls := calls w @ [Exec_Run ''modprobe'' [''aufs'']]\<rparr>"
  by (auto simp: supportsAufs_eq Let_def split: sum.splits prod.splits)

lemma createRootDir_loop_error:
  "createRootDir_loop E root ps w = (Some err, w') \<Longrightarrow> \<exists>e. err = OsError e"
proof (induction ps arbitrary: w)
  case Nil
  then show ?case by simp
next
  case (Cons p ps)
  show ?case
  proof (cases "sys_result E (calls w) (MkdirAll (Join [root, p]) perm_0755)")
    case None
    with Cons.prems have "createRootDir_loop E root ps
        (w\<lparr>calls := calls w @ [MkdirAll (Join [root, p]) perm_0755]\<rparr>) = (Some err, w')"
      by (simp add: do_call_def)
    then show ?thesis by (rule Cons.IH)
  next
    case (Some e)
    with Cons.prems show ?thesis by (auto simp: do_call_def)
  qed
qed

lemma createRootDir_error:
  assumes "createRootDir E root w = (Some err, w')"
  shows "\<exists>e. err = OsError e"
proof (cases "sys_result E (calls w) (MkdirAll root perm_0755)")
  case (Some e)
  with assms show ?thesis by (auto simp: createRootDir_def do_call_def split: if_splits)
next
  case None
  let ?w1 = "w\<lparr>calls := calls w @ [MkdirAll root perm_0755]\<rparr>"
  obtain r w2 where l: "createRootDir_loop E root [''mnt'', ''diff'', ''layers''] ?w1 = (r, w2)"
    by (cases "createRootDir_loop E root [''mnt'', ''diff'', ''layers''] ?w1")
  show ?thesis
  proof (cases r)
    case (Some e)
    with assms None l have "err = e"
      by (simp add: createRootDir_def do_call_def del: createRootDir_loop.simps)
    with createRootDir_loop_error [OF l [unfolded Some]] show ?thesis by simp
  next
    case None': None
    with assms None l show ?thesis
      by (auto simp: createRootDir_def do_call_def simp del: createRootDir_loop.simps)
  qed
qed

lemma createRootDir_all_ok:
  assumes "\<forall>h c. sys_result E h c = None"
  shows "createRootDir E root w = (None, w\<lparr>calls := calls w @ bootstrap_calls root\<rparr>)"
  using assms by (simp add: createRootDir_def do_call_def bootstrap_calls_def)

lemma ex_bootstrap:
  "bootstrap_calls ''/var/lib/docker-aufs/container-layers'' =
     [MkdirAll ''/var/lib/docker-aufs/container-layers'' perm_0755,
      MkdirAll ''/var/lib/docker-aufs/container-layers/mnt'' perm_0755,
      MkdirAll ''/var/lib/docker-aufs/container-layers/diff'' perm_0755,
      MkdirAll ''/var/lib/docker-aufs/container-layers/layers'' perm_0755,
      MakePrivate ''/var/lib/docker-aufs/container-layers'']"
  "bootstrap_calls ''/var/lib/docker-aufs/image-layers'' =
     [MkdirAll ''/var/lib/docker-aufs/image-layers'' perm_0755,
      MkdirAll ''/var/lib/docker-aufs/image-layers/mnt'' perm_0755,
      MkdirAll ''/var/lib/docker-aufs/image-layers/diff'' perm_0755,
      MkdirAll ''/var/lib/docker-aufs/image-layers/layers'' perm_0755,
      MakePrivate ''/var/lib/docker-aufs/image-layers'']"
  by code_simp+

lemma ex_proc_lines:
  "proc_filesystems_lines ex_env w = [''nodev'' @ [CHR 0x09] @ ''sysfs'', ''nodev'' @ [CHR 0x09] @ ''aufs'']"
  "proc_filesystems_lines ex_env_btrfs w = [''nodev'' @ [CHR 0x09] @ ''sysfs'', ''nodev'' @ [CHR 0x09] @ ''aufs'']"
  "proc_filesystems_lines ex_env_no_aufs w = [''nodev'' @ [CHR 0x09] @ ''sysfs'', ''ext4'']"
  by (simp_all add: proc_filesystems_lines_def ex_env_def ex_env_btrfs_def ex_env_no_aufs_def
        ex_Open_def Scanner_lines.simps MaxScanTokenSize_def LF_def CR_def dropCR_def)

lemma ex_proc_lines_mkdir:
  "proc_filesystems_lines ex_env_exists w = [''nodev'' @ [CHR 0x09] @ ''sysfs'', ''nodev'' @ [CHR 0x09] @ ''aufs'']"
  "proc_filesystems_lines ex_env_mkdir_fails w = [''nodev'' @ [CHR 0x09] @ ''sysfs'', ''nodev'' @ [CHR 0x09] @ ''aufs'']"
  by (simp_all add: proc_filesystems_lines_def ex_env_def ex_env_exists_def ex_env_mkdir_fails_def
        ex_Open_def Scanner_lines.simps MaxScanTokenSize_def LF_def CR_def dropCR_def)

lemma ex_exists_supportsAufs:
  "supportsAufs ex_env_exists ex_world =
     (None, ex_world\<lparr>calls := [Exec_Run ''modprobe'' [''aufs'']]\<rparr>)"
  by (simp add: supportsAufs_eq Let_def ex_proc_lines_mkdir Contains_def sublist_code ex_calls)
     (simp add: ex_env_exists_def ex_env_def ex_Open_def)

lemma createRootDir_bootstrap_root:
  "createRootDir E root w = bootstrap_root E root w"
proof (cases "sys_result E (calls w) (MkdirAll root perm_0755)")
  case None
  then show ?thesis
    by (simp add: createRootDir_def bootstrap_root_def root_exists_def bootstrap_calls_def
          do_call_def split: option.splits)
next
  case (Some x)
  then show ?thesis
    by (simp add: createRootDir_def bootstrap_root_def root_exists_def bootstrap_calls_def
          do_call_def)
qed

lemma bootstrap_root_exists:
  "root_exists E (calls w) root \<Longrightarrow>
   bootstrap_root E root w = (None, w\<lparr>calls := calls w @ [MkdirAll root perm_0755]\<rparr>)"
  by (simp add: bootstrap_root_def)


section \<open>Properties of the layer store\<close>

text \<open>
  Claim C5. \<open>getIdDesc\<close> looks in the local container root first, then in the local
  image root, then in the sub-partitions of the remote root in the order of the
  directory listing, and returns the first root whose \<open>layers/\<close> listing holds the id:
  an id under a root that comes earlier hides the same id under the later ones. A
  sub-partition whose \<open>layers/\<close> cannot be listed counts as not holding the id and is
  passed over; a local \<open>layers/\<close> that cannot be listed, once the search reaches it,
  fails the call with that error.
\<close>

theorem getIdDesc_search_order:
  fixes E a w lid
  defines "c \<equiv> rootLocalContainerLayers a"
      and "i \<equiv> rootLocalImageLayers a"
      and "n \<equiv> rootNFSImageLayers a"
  shows
    "(\<forall>err. loadIds E w (Join [c, ''layers'']) = Inl err \<longrightarrow> getIdDesc E a w lid = Inl err) \<and>
     (\<forall>ids. loadIds E w (Join [c, ''layers'']) = Inr ids \<and> lid \<in> set ids \<longrightarrow>
        getIdDesc E a w lid = Inr \<lparr>id' = lid, rootPath = c\<rparr>) \<and>
     (\<forall>ids err. loadIds E w (Join [c, ''layers'']) = Inr ids \<and> lid \<notin> set ids \<and>
        loadIds E w (Join [i, ''layers'']) = Inl err \<longrightarrow> getIdDesc E a w lid = Inl err) \<and>
     (\<forall>ids ids2. loadIds E w (Join [c, ''layers'']) = Inr ids \<and> lid \<notin> set ids \<and>
        loadIds E w (Join [i, ''layers'']) = Inr ids2 \<and> lid \<in> set ids2 \<longrightarrow>
        getIdDesc E a w lid = Inr \<lparr>id' = lid, rootPath = i\<rparr>) \<and>
     (\<forall>ids ids2 dirs. loadIds E w (Join [c, ''layers'']) = Inr ids \<and> lid \<notin> set ids \<and>
        loadIds E w (Join [i, ''layers'']) = Inr ids2 \<and> lid \<notin> set ids2 \<and>
        getChildDirs E w n = Inr dirs \<longrightarrow>
        getIdDesc E a w lid =
          (case find (remote_has E w n lid) dirs of
             Some subdir \<Rightarrow> Inr \<lparr>id' = lid, rootPath = Join [n, subdir]\<rparr>
           | None \<Rightarrow> Inl ErrUnknownID))"
  unfolding c_def i_def n_def getIdDesc_def
  by (auto simp: lookupId_eq getIdDesc_remote_find split: option.splits)

theorem getIdDesc_search_order_witness:
  "getIdDesc ex_env ex_driver ex_world ''B'' = Inr \<lparr>id' = ''B'', rootPath = ''/c''\<rparr> \<and>
   getIdDesc ex_env ex_driver ex_world ''A'' = Inr \<lparr>id' = ''A'', rootPath = ''/i''\<rparr> \<and>
   getIdDesc ex_env ex_driver ex_world ''C'' = Inr \<lparr>id' = ''C'', rootPath = ''/mnt/p1''\<rparr> \<and>
   getIdDesc ex_env ex_driver ex_world ''Z'' = Inl ErrUnknownID \<and>
   getIdDesc ex_env (ex_driver\<lparr>rootLocalContainerLayers := ''/x''\<rparr>) ex_world ''A'' =
     Inl (OsError 13)"
proof -
  note order = getIdDesc_search_order [where E = ex_env and w = ex_world and a = ex_driver]
  have B: "getIdDesc ex_env ex_driver ex_world ''B'' = Inr \<lparr>id' = ''B'', rootPath = ''/c''\<rparr>"
    using order [of "''B''"] by (simp add: ex_driver_def ex_paths ex_loadIds)
  have A: "getIdDesc ex_env ex_driver ex_world ''A'' = Inr \<lparr>id' = ''A'', rootPath = ''/i''\<rparr>"
    using order [of "''A''"] by (simp add: ex_driver_def ex_paths ex_loadIds)
  have C: "getIdDesc ex_env ex_driver ex_world ''C'' = Inr \<lparr>id' = ''C'', rootPath = ''/mnt/p1''\<rparr>"
    using order [of "''C''"] by (simp add: ex_driver_def ex_paths ex_loadIds remote_has_def)
  have Z: "getIdDesc ex_env ex_driver ex_world ''Z'' = Inl ErrUnknownID"
    using order [of "''Z''"] by (simp add: ex_driver_def ex_paths ex_loadIds remote_has_def)
  have X: "getIdDesc ex_env (ex_driver\<lparr>rootLocalContainerLayers := ''/x''\<rparr>) ex_world ''A'' =
     Inl (OsError 13)"
    using getIdDesc_search_order [where E = ex_env and w = ex_world
        and a = "ex_driver\<lparr>rootLocalContainerLayers := ''/x''\<rparr>" and lid = "''A''"]
    by (simp add: ex_driver_def ex_paths ex_loadIds)
  from B A C Z X show ?thesis by simp
qed

text \<open>
  Claim C10. \<open>Exists\<close> is true exactly when \<open>getIdDesc\<close> returns a descriptor. Every
  error of \<open>getIdDesc\<close> gives false: the id missing from every root, but also a local
  \<open>layers/\<close> directory that cannot be listed, or a remote root that cannot be listed
  when the id is under no local root. The caller cannot tell these apart.
\<close>

theorem Exists_collapses_errors:
  "(Exists E a w lid \<longleftrightarrow> (\<exists>d. getIdDesc E a w lid = Inr d)) \<and>
   (\<forall>err. getIdDesc E a w lid = Inl err \<longrightarrow> \<not> Exists E a w lid) \<and>
   (\<forall>err. loadIds E w (Join [rootLocalContainerLayers a, ''layers'']) = Inl err \<longrightarrow>
      \<not> Exists E a w lid) \<and>
   (\<forall>ids err. loadIds E w (Join [rootLocalContainerLayers a, ''layers'']) = Inr ids \<and> lid \<notin> set ids \<and>
      loadIds E w (Join [rootLocalImageLayers a, ''layers'']) = Inl err \<longrightarrow> \<not> Exists E a w lid) \<and>
   (\<forall>ids ids2 err. loadIds E w (Join [rootLocalContainerLayers a, ''layers'']) = Inr ids \<and> lid \<notin> set ids \<and>
      loadIds E w (Join [rootLocalImageLayers a, ''layers'']) = Inr ids2 \<and> lid \<notin> set ids2 \<and>
      getChildDirs E w (rootNFSImageLayers a) = Inl err \<longrightarrow> \<not> Exists E a w lid)"
  unfolding Exists_def getIdDesc_def
  by (auto simp: lookupId_eq split: option.splits sum.splits)

theorem Exists_collapses_errors_witness:
  "\<not> Exists ex_env ex_driver ex_world ''Z'' \<and>
   Exists ex_env ex_driver ex_world ''A'' \<and>
   \<not> Exists ex_env (ex_driver\<lparr>rootLocalContainerLayers := ''/x''\<rparr>) ex_world ''A''"
proof -
  have "\<not> Exists ex_env ex_driver ex_world ''Z''"
    using Exists_collapses_errors [of ex_env ex_driver ex_world "''Z''"]
    by (simp add: ex_getIdDesc)
  moreover have "Exists ex_env ex_driver ex_world ''A''"
    using Exists_collapses_errors [of ex_env ex_driver ex_world "''A''"]
    by (simp add: ex_getIdDesc)
  moreover have "\<not> Exists ex_env (ex_driver\<lparr>rootLocalContainerLayers := ''/x''\<rparr>) ex_world ''A''"
    using Exists_collapses_errors [of ex_env "ex_driver\<lparr>rootLocalContainerLayers := ''/x''\<rparr>"
        ex_world "''A''", THEN conjunct2, THEN conjunct2, THEN conjunct1]
    by (simp add: ex_driver_def ex_paths ex_loadIds)
  ultimately show ?thesis by simp
qed

section \<open>Properties of the union mount engine\<close>




text \<open>
  Claim C7. When \<open>aufsMount\<close> returns an error (other than the panic of \<open>make\<close>), the
  error is that of a mount call on the target, first mount or remount, and the call
  after it, the last one made, is \<open>Unmount(target)\<close>. When \<open>aufsMount\<close> returns without
  error, every call it made after the probe was a mount of the target that succeeded:
  so a mount call that fails always leads to the unmount and the error.
\<close>

theorem aufsMount_unmounts_on_failure:
  "(\<forall>err w'. aufsMount E ro rw target mountLabel w = Some (Some err, w') \<and> err \<noteq> PanicMakeslice \<longrightarrow>
      (\<exists>h flags data x.
         calls w' = h @ [Mount ''none'' target ''aufs'' flags data, Unmount target] \<and>
         sys_result E h (Mount ''none'' target ''aufs'' flags data) = Some x \<and>
         err = OsError x)) \<and>
   (\<forall>w'. aufsMount E ro rw target mountLabel w = Some (None, w') \<longrightarrow>
      (\<exists>cs. calls w' = calls (snd (useDirperm E w)) @ cs \<and>
            (\<forall>j < length cs. \<exists>flags data.
               cs ! j = Mount ''none'' target ''aufs'' flags data \<and>
               sys_result E (calls (snd (useDirperm E w)) @ take j cs) (cs ! j) = None)))"
proof (cases "useDirperm E w")
  case (Pair d w1)
  let ?plan = "aufsMount_plan E ro rw target mountLabel d"
  note eq = aufsMount_eq [OF Pair, of ro rw target mountLabel]
  have mounts: "\<exists>flags data. ?plan ! j = Mount ''none'' target ''aufs'' flags data"
    if "j < length ?plan" for j
    using that
    by (cases j) (auto simp: aufsMount_plan_def Let_def first_mount_call_def remount_call_def)
  have fail: "\<exists>h flags data x.
         calls w' = h @ [Mount ''none'' target ''aufs'' flags data, Unmount target] \<and>
         sys_result E h (Mount ''none'' target ''aufs'' flags data) = Some x \<and>
         err = OsError x"
    if ret: "aufsMount E ro rw target mountLabel w = Some (Some err, w')"
      and np: "err \<noteq> PanicMakeslice" for err w'
  proof -
    from ret np obtain w2 where dc: "do_calls E ?plan w1 = (Some err, w2)"
      and w': "w' = snd (do_call E (Unmount target) w2)"
      by (auto simp: eq split: if_splits prod.splits option.splits)
    from do_calls_err [OF dc] obtain j x where j: "j < length ?plan"
      and c2: "calls w2 = calls w1 @ take (Suc j) ?plan"
      and res: "sys_result E (calls w1 @ take j ?plan) (?plan ! j) = Some x"
      and err: "err = OsError x"
      by blast
    from mounts [OF j] obtain flags data where m: "?plan ! j = Mount ''none'' target ''aufs'' flags data"
      by blast
    have "take (Suc j) ?plan = take j ?plan @ [?plan ! j]"
      using j by (simp add: take_Suc_conv_app_nth)
    with c2 w' m have "calls w' = (calls w1 @ take j ?plan) @
        [Mount ''none'' target ''aufs'' flags data, Unmount target]"
      by simp
    with res m err have "calls w' = (calls w1 @ take j ?plan) @
        [Mount ''none'' target ''aufs'' flags data, Unmount target] \<and>
         sys_result E (calls w1 @ take j ?plan) (Mount ''none'' target ''aufs'' flags data) = Some x \<and>
         err = OsError x"
      by simp
    then show ?thesis by (intro exI)
  qed
  have ok: "\<exists>cs. calls w' = calls w1 @ cs \<and>
            (\<forall>j < length cs. \<exists>flags data.
               cs ! j = Mount ''none'' target ''aufs'' flags data \<and>
               sys_result E (calls w1 @ take j cs) (cs ! j) = None)"
    if ret: "aufsMount E ro rw target mountLabel w = Some (None, w')" for w'
  proof -
    from ret have dc: "do_calls E ?plan w1 = (None, w')"
      by (auto simp: eq split: if_splits prod.splits option.splits)
    from do_calls_ok [OF dc] do_calls_ok_results [OF dc] mounts
    have "calls w' = calls w1 @ ?plan \<and>
            (\<forall>j < length ?plan. \<exists>flags data.
               ?plan ! j = Mount ''none'' target ''aufs'' flags data \<and>
               sys_result E (calls w1 @ take j ?plan) (?plan ! j) = None)"
      by simp
    then show ?thesis by blast
  qed
  from fail ok Pair show ?thesis by simp
qed

theorem aufsMount_unmounts_on_failure_witness:
  "\<exists>w'. aufsMount ex_env_fail [''/i/diff/A'', ''/i/diff/Z''] ''/c/diff/B'' ''/c/mnt/B'' [] ex_world
          = Some (Some (OsError 16), w') \<and>
        calls w' =
          [Mount ''none'' ''/c/mnt/B'' ''aufs'' 0
             ''br:/c/diff/B=rw:/i/diff/A=ro+wh,dio,xino=/dev/shm/aufs.xino,dirperm1'',
           Mount ''none'' ''/c/mnt/B'' ''aufs'' 32 ''append:/i/diff/Z=ro+wh'',
           Unmount ''/c/mnt/B'']"
proof -
  have probe: "useDirperm ex_env_fail ex_world = (True, ex_world)"
    by (simp add: useDirperm_def ex_world_def)
  have r: "aufsMount ex_env_fail [''/i/diff/A'', ''/i/diff/Z''] ''/c/diff/B'' ''/c/mnt/B'' [] ex_world
      = Some (Some (OsError 16),
          ex_world\<lparr>calls :=
            [Mount ''none'' ''/c/mnt/B'' ''aufs'' 0
               ''br:/c/diff/B=rw:/i/diff/A=ro+wh,dio,xino=/dev/shm/aufs.xino,dirperm1'',
             Mount ''none'' ''/c/mnt/B'' ''aufs'' 32 ''append:/i/diff/Z=ro+wh'',
             Unmount ''/c/mnt/B'']\<rparr>)"
    by (subst aufsMount_eq [OF probe])
       (simp add: aufsMount_buf_def aufsMount_plan_def
          first_mount_call_def remount_call_def branch_opt_def do_call_def
          ex_env_fail_def ex_env_small_def ex_env_def ex_world_def)
  from aufsMount_unmounts_on_failure [of ex_env_fail "[''/i/diff/A'', ''/i/diff/Z'']" "''/c/diff/B''"
      "''/c/mnt/B''" "[]" ex_world] r
  have "\<exists>h flags data x.
          [Mount ''none'' ''/c/mnt/B'' ''aufs'' 0
               ''br:/c/diff/B=rw:/i/diff/A=ro+wh,dio,xino=/dev/shm/aufs.xino,dirperm1'',
             Mount ''none'' ''/c/mnt/B'' ''aufs'' 32 ''append:/i/diff/Z=ro+wh'',
             Unmount ''/c/mnt/B'']
          = h @ [Mount ''none'' ''/c/mnt/B'' ''aufs'' flags data, Unmount ''/c/mnt/B'']"
    by fastforce
  with r show ?thesis by simp
qed

section \<open>Properties of the mount lifecycle\<close>

text \<open>
  Claim C1. Let \<open>lid\<close> resolve to the descriptor \<open>d\<close> and let its parent chain \<open>ids\<close>
  be read without error. With an empty chain \<open>Get\<close> returns \<open><root>/diff/<id>\<close>; with
  a parent it returns \<open><root>/mnt/<id>\<close>, where \<open>root\<close> is the root the id resolved under.
  When the chain is empty or the count read is not 0, nothing is called: the world is
  unchanged. Only with a parent and the count 0 is \<open>mount\<close> run; it always returns,
  and \<open>Get\<close> succeeds exactly when it returned no error. Whenever \<open>Get\<close> succeeds the
  entry of \<open>lid\<close> is the count read plus one; when it fails the map is unchanged.
\<close>

theorem Get_path_and_refcount:
  assumes resolves: "getIdDesc E a w lid = Inr d"
      and chain: "getParentIds E w (rootPath d) lid = (ids, None)"
  shows
    "(ids = [] \<longrightarrow>
        Get E a w lid mountLabel =
          Some (Inr (Join [rootPath d, ''diff'', lid]),
                a\<lparr>active := (active a)(lid \<mapsto> active_count a lid + 1)\<rparr>, w)) \<and>
     (ids \<noteq> [] \<and> active_count a lid \<noteq> 0 \<longrightarrow>
        Get E a w lid mountLabel =
          Some (Inr (Join [rootPath d, ''mnt'', lid]),
                a\<lparr>active := (active a)(lid \<mapsto> active_count a lid + 1)\<rparr>, w)) \<and>
     (ids \<noteq> [] \<and> active_count a lid = 0 \<longrightarrow>
        (\<exists>r w'. mount E a w d mountLabel = Some (r, w') \<and>
           Get E a w lid mountLabel =
             Some (case r of
                     None \<Rightarrow> (Inr (Join [rootPath d, ''mnt'', lid]),
                              a\<lparr>active := (active a)(lid \<mapsto> active_count a lid + 1)\<rparr>, w')
                   | Some err \<Rightarrow> (Inl err, a, w'))))"
proof -
  have i: "id' d = lid" using resolves by (rule getIdDesc_id)
  obtain r w' where m: "mount E a w d mountLabel = Some (r, w')"
    using mount_returns [of E a w d mountLabel] by auto
  show ?thesis
    using resolves chain m
    by (cases r) (simp_all add: Get_def i Let_def)
qed

theorem Get_path_and_refcount_witness:
  "Get ex_env ex_driver ex_world ''A'' [] =
     Some (Inr ''/i/diff/A'', ex_driver\<lparr>active := [''A'' \<mapsto> 1]\<rparr>, ex_world) \<and>
   Get ex_env ex_driver ex_world ''B'' [] =
     Some (Inr ''/c/mnt/B'', ex_driver\<lparr>active := [''B'' \<mapsto> 1]\<rparr>,
           ex_world\<lparr>calls :=
             [Mount ''none'' ''/c/mnt/B'' ''aufs'' 0
                ''br:/c/diff/B=rw:/i/diff/A=ro+wh,dio,xino=/dev/shm/aufs.xino,dirperm1'']\<rparr>) \<and>
   Get ex_env (ex_driver\<lparr>active := [''B'' \<mapsto> 1]\<rparr>) ex_world ''B'' [] =
     Some (Inr ''/c/mnt/B'', ex_driver\<lparr>active := [''B'' \<mapsto> 2]\<rparr>, ex_world)"
proof -
  have A: "Get ex_env ex_driver ex_world ''A'' [] =
     Some (Inr ''/i/diff/A'', ex_driver\<lparr>active := [''A'' \<mapsto> 1]\<rparr>, ex_world)"
    using Get_path_and_refcount [OF ex_getIdDesc(1) ex_chain(1), of ex_world "[]", THEN conjunct1]
    by (simp add: ex_paths3 active_count_def ex_active)
  have B: "Get ex_env ex_driver ex_world ''B'' [] =
     Some (Inr ''/c/mnt/B'', ex_driver\<lparr>active := [''B'' \<mapsto> 1]\<rparr>,
           ex_world\<lparr>calls :=
             [Mount ''none'' ''/c/mnt/B'' ''aufs'' 0
                ''br:/c/diff/B=rw:/i/diff/A=ro+wh,dio,xino=/dev/shm/aufs.xino,dirperm1'']\<rparr>)"
    using Get_path_and_refcount [OF ex_getIdDesc(2) ex_chain(2), of ex_world "[]",
        THEN conjunct2, THEN conjunct2]
    by (simp add: ex_mount_B ex_paths3 active_count_def ex_active)
  have g: "getIdDesc ex_env (ex_driver\<lparr>active := [''B'' \<mapsto> 1]\<rparr>) ex_world ''B'' =
      Inr \<lparr>id' = ''B'', rootPath = ''/c''\<rparr>"
    by (simp add: ex_getIdDesc)
  have B2: "Get ex_env (ex_driver\<lparr>active := [''B'' \<mapsto> 1]\<rparr>) ex_world ''B'' [] =
     Some (Inr ''/c/mnt/B'', ex_driver\<lparr>active := [''B'' \<mapsto> 2]\<rparr>, ex_world)"
    using Get_path_and_refcount [OF g ex_chain(2), of "[]", THEN conjunct2, THEN conjunct1]
    by (simp add: ex_paths3 active_count_def)
  from A B B2 show ?thesis by simp
qed

text \<open>
  Claim C8. Let \<open>lid\<close> resolve to \<open>d\<close>. When \<open>os.Open\<close> of \<open>layers/<id>\<close> answers that the
  file does not exist, \<open>Get\<close> succeeds: it returns \<open><root>/diff/<id>\<close>, makes no call (the
  world is unchanged, so nothing is mounted) and counts the use. Any other error of
  opening or reading the file is returned, and nothing changes.
\<close>

theorem Get_missing_layers_file:
  assumes resolves: "getIdDesc E a w lid = Inr d"
  shows
    "(os_Open E (calls w) (Join [rootPath d, ''layers'', lid]) = Inl ENOENT \<longrightarrow>
        Get E a w lid mountLabel =
          Some (Inr (Join [rootPath d, ''diff'', lid]),
                a\<lparr>active := (active a)(lid \<mapsto> active_count a lid + 1)\<rparr>, w)) \<and>
     (\<forall>e. os_Open E (calls w) (Join [rootPath d, ''layers'', lid]) = Inl e \<and> e \<noteq> ENOENT \<longrightarrow>
        Get E a w lid mountLabel = Some (Inl (OsError e), a, w)) \<and>
     (\<forall>ids err. getParentIds E w (rootPath d) lid = (ids, Some err) \<and> \<not> IsNotExist err \<longrightarrow>
        Get E a w lid mountLabel = Some (Inl err, a, w))"
proof -
  have i: "id' d = lid" using resolves by (rule getIdDesc_id)
  show ?thesis
    using resolves
    by (auto simp: Get_def i Let_def getParentIds_def)
qed

theorem Get_missing_layers_file_witness:
  "Get ex_env ex_driver ex_world ''D'' [] =
     Some (Inr ''/i/diff/D'', ex_driver\<lparr>active := [''D'' \<mapsto> 1]\<rparr>, ex_world) \<and>
   Get ex_env ex_driver ex_world ''E'' [] = Some (Inl (OsError 13), ex_driver, ex_world)"
proof -
  have o: "os_Open ex_env (calls ex_world) ''/i/layers/D'' = Inl ENOENT"
    "os_Open ex_env (calls ex_world) ''/i/layers/E'' = Inl 13"
    by (simp_all add: ex_env_def ex_Open_def)
  have D: "Get ex_env ex_driver ex_world ''D'' [] =
     Some (Inr ''/i/diff/D'', ex_driver\<lparr>active := [''D'' \<mapsto> 1]\<rparr>, ex_world)"
    using Get_missing_layers_file [OF ex_getIdDesc(4), of ex_world "[]", THEN conjunct1]
    by (simp add: ex_paths3 o active_count_def ex_active)
  have E: "Get ex_env ex_driver ex_world ''E'' [] = Some (Inl (OsError 13), ex_driver, ex_world)"
    using Get_missing_layers_file [OF ex_getIdDesc(5), of ex_world "[]",
        THEN conjunct2, THEN conjunct1]
    by (simp add: ex_paths3 o ENOENT_def)
  from D E show ?thesis by simp
qed

text \<open>
  Claim C3. Run any sequence of matched \<open>Get\<close>/\<open>Put\<close> pairs on \<open>lid\<close>, starting
  without an entry for it, each operation succeeding: afterwards there is no entry
  for \<open>lid\<close>. (The count is a 64-bit integer; this holds also past its wrap-around.)
  On a resolved id, \<open>Put\<close> with a count above 1 only writes the count less one and
  calls nothing. With a count of 1 (or less) it deletes the entry and returns no
  error whatever the unmount did, and it runs the driver's \<open>unmount\<close> exactly when the
  chain read has a parent; \<open>unmount\<close> calls \<open>Unmount\<close> on \<open>mnt/<id>\<close> when the pre-check
  says the target is mounted, and nothing otherwise.
\<close>

theorem Put_and_balanced_refcount:
  "(\<forall>ops a' w'. balanced 0 ops \<and> active a lid = None \<and>
        run_ops E lid ops a w = Some (a', w') \<longrightarrow> active a' lid = None) \<and>
   (\<forall>d. getIdDesc E a w lid = Inr d \<and> sint (active_count a lid) > 1 \<longrightarrow>
        Put E a w lid =
          (None, a\<lparr>active := (active a)(lid \<mapsto> active_count a lid - 1)\<rparr>, w)) \<and>
   (\<forall>d. getIdDesc E a w lid = Inr d \<and> sint (active_count a lid) \<le> 1 \<longrightarrow>
        Put E a w lid =
          (None, a\<lparr>active := (active a)(lid := None)\<rparr>,
           if fst (getParentIds E w (rootPath d) lid) \<noteq> [] then snd (unmount E w d) else w)) \<and>
   (\<forall>d. calls (snd (unmount E w d)) =
        calls w @ (if mounted E w d = Inr True
                   then [Unmount (Join [rootPath d, ''mnt'', id' d])] else []))"
proof (intro conjI allI impI)
  fix ops a' w'
  assume "balanced 0 ops \<and> active a lid = None \<and> run_ops E lid ops a w = Some (a', w')"
  then have "balanced 0 ops" "open_uses 0 a lid" "run_ops E lid ops a w = Some (a', w')"
    by (simp_all add: open_uses_def)
  then show "active a' lid = None" by (rule balanced_run_ops)
next
  fix d
  assume "getIdDesc E a w lid = Inr d \<and> 1 < sint (active_count a lid)"
  then show "Put E a w lid =
          (None, a\<lparr>active := (active a)(lid \<mapsto> active_count a lid - 1)\<rparr>, w)"
    using Put_eq [of E a w lid d] by simp
next
  fix d
  assume "getIdDesc E a w lid = Inr d \<and> sint (active_count a lid) \<le> 1"
  then show "Put E a w lid =
          (None, a\<lparr>active := (active a)(lid := None)\<rparr>,
           if fst (getParentIds E w (rootPath d) lid) \<noteq> [] then snd (unmount E w d) else w)"
    using Put_eq [of E a w lid d] by simp
next
  fix d
  show "calls (snd (unmount E w d)) =
        calls w @ (if mounted E w d = Inr True
                   then [Unmount (Join [rootPath d, ''mnt'', id' d])] else [])"
    by (rule unmount_calls)
qed

theorem Put_and_balanced_refcount_witness:
  "\<exists>a' w'. run_ops ex_env ''B'' [OpGet [], OpGet [], OpPut, OpPut] ex_driver ex_world = Some (a', w') \<and>
     active a' ''B'' = None \<and>
     calls w' =
       [Mount ''none'' ''/c/mnt/B'' ''aufs'' 0
          ''br:/c/diff/B=rw:/i/diff/A=ro+wh,dio,xino=/dev/shm/aufs.xino,dirperm1'',
        Unmount ''/c/mnt/B'']"
proof -
  let ?w = "ex_world\<lparr>calls :=
       [Mount ''none'' ''/c/mnt/B'' ''aufs'' 0
          ''br:/c/diff/B=rw:/i/diff/A=ro+wh,dio,xino=/dev/shm/aufs.xino,dirperm1'',
        Unmount ''/c/mnt/B'']\<rparr>"
  have "\<exists>a'. run_ops ex_env ''B'' [OpGet [], OpGet [], OpPut, OpPut] ex_driver ex_world = Some (a', ?w)"
    by (simp add: Get_def Put_def unmount_def do_call_def ex_getIdDesc ex_getParentIds ex_mount_B
          ex_mounted_B ex_sys_result ex_paths3 active_count_def ex_active)
  then obtain a' where
    r: "run_ops ex_env ''B'' [OpGet [], OpGet [], OpPut, OpPut] ex_driver ex_world = Some (a', ?w)"
    by blast
  have b: "balanced 0 [OpGet [], OpGet [], OpPut, OpPut]" by simp
  have e: "active ex_driver ''B'' = None" by (simp add: ex_active)
  have "active a' ''B'' = None"
    by (rule Put_and_balanced_refcount [THEN conjunct1, rule_format, OF conjI [OF b conjI [OF e r]]])
  with r show ?thesis by simp
qed

text \<open>
  Claim C4, as the code has it. The claim puts the recursive deletion of the renamed
  trees before the deletion of \<open>layers/<id>\<close> and lets any deletion error abort. In
  the code the two \<open>os.RemoveAll\<close> are deferred: they run when \<open>Remove\<close> returns, after
  the metadata file was deleted, the tree of \<open>diff\<close> first, and what they answer is
  dropped. In the example, \<open>Remove\<close> of \<open>B\<close> deletes \<open>/c/layers/B\<close> before both trees, and
  returns no error when both \<open>os.RemoveAll\<close> fail.
\<close>

theorem Remove_order_counterexample:
  "calls (snd (snd (Remove ex_env ex_driver ex_world ''B''))) =
     [Rename ''/c/mnt/B'' ''/c/mnt/B-removing'',
      Rename ''/c/diff/B'' ''/c/diff/B-removing'',
      Remove_file ''/c/layers/B'',
      RemoveAll ''/c/diff/B-removing'',
      RemoveAll ''/c/mnt/B-removing''] \<and>
   Remove ex_env_removeall_fails ex_driver ex_world ''B'' =
     (None, ex_driver,
      ex_world\<lparr>calls :=
        [Rename ''/c/mnt/B'' ''/c/mnt/B-removing'',
         Rename ''/c/diff/B'' ''/c/diff/B-removing'',
         Remove_file ''/c/layers/B'',
         RemoveAll ''/c/diff/B-removing'',
         RemoveAll ''/c/mnt/B-removing'']\<rparr>)"
proof -
  have g: "getIdDesc ex_env_removeall_fails ex_driver ex_world ''B'' =
      Inr \<lparr>id' = ''B'', rootPath = ''/c''\<rparr>"
    by (simp add: ex_env_removeall_fails_def ex_getIdDesc)
  have u: "unmount ex_env_removeall_fails ex_world \<lparr>id' = ''B'', rootPath = ''/c''\<rparr> = (None, ex_world)"
    by (simp add: ex_env_removeall_fails_def ex_unmount_B)
  have s: "sys_result ex_env_removeall_fails h c = (case c of RemoveAll p \<Rightarrow> Some 13 | _ \<Rightarrow> None)" for h c
    by (simp add: ex_env_removeall_fails_def)
  have 1: "calls (snd (snd (Remove ex_env ex_driver ex_world ''B''))) =
     [Rename ''/c/mnt/B'' ''/c/mnt/B-removing'',
      Rename ''/c/diff/B'' ''/c/diff/B-removing'',
      Remove_file ''/c/layers/B'',
      RemoveAll ''/c/diff/B-removing'',
      RemoveAll ''/c/mnt/B-removing'']"
    by (subst Remove_after_unmount [OF ex_getIdDesc(2) ex_unmount_B(2)])
       (simp add: Remove_loop_step fatal_def ex_sys_result ex_paths3 ex_paths4 ex_calls
          run_deferred_calls do_call_def del: Remove_loop.simps(2))
  have 2: "Remove ex_env_removeall_fails ex_driver ex_world ''B'' =
     (None, ex_driver,
      ex_world\<lparr>calls :=
        [Rename ''/c/mnt/B'' ''/c/mnt/B-removing'',
         Rename ''/c/diff/B'' ''/c/diff/B-removing'',
         Remove_file ''/c/layers/B'',
         RemoveAll ''/c/diff/B-removing'',
         RemoveAll ''/c/mnt/B-removing'']\<rparr>)"
    by (subst Remove_after_unmount [OF g u])
       (simp add: Remove_loop_step fatal_def s ex_paths3 ex_paths4 ex_calls
          do_call_def del: Remove_loop.simps(2))
  from 1 2 show ?thesis by simp
qed

text \<open>
  Claim C4, amended. \<open>Remove\<close> of a resolved id never changes the driver, so the count
  of the id is not decremented. It unmounts first, and returns the error when the
  pre-check or the unmount fails. Then come, in this order: the rename of \<open>mnt/<id>\<close>
  to \<open>mnt/<id>-removing\<close>, the rename of \<open>diff/<id>\<close> to \<open>diff/<id>-removing\<close>, the
  deletion of the file \<open>layers/<id>\<close>, and only then the recursive deletions, of
  \<open>diff/<id>-removing\<close> and then of \<open>mnt/<id>-removing\<close>. \<open>ENOENT\<close> is tolerated at the
  renames and at the file. Another error of the first rename is returned with nothing
  more called; another error of the second rename is returned after the tree of
  \<open>mnt\<close>, already renamed, is deleted; another error of deleting the file is returned
  after both trees are deleted. The answers of the recursive deletions are not looked
  at.
\<close>

theorem Remove_order:
  fixes E :: env and a :: Driver and w :: world and lid :: string and d :: IdDesc
  assumes resolves: "getIdDesc E a w lid = Inr d"
  defines "mnt \<equiv> Join [rootPath d, ''mnt'', lid]"
      and "mnt' \<equiv> Join [rootPath d, ''mnt'', lid @ ''-removing'']"
      and "diff \<equiv> Join [rootPath d, ''diff'', lid]"
      and "diff' \<equiv> Join [rootPath d, ''diff'', lid @ ''-removing'']"
      and "layers \<equiv> Join [rootPath d, ''layers'', lid]"
  shows
    "fst (snd (Remove E a w lid)) = a \<and>
     (\<forall>err w0. unmount E w d = (Some err, w0) \<longrightarrow> Remove E a w lid = (Some err, a, w0)) \<and>
     (\<forall>w0. unmount E w d = (None, w0) \<longrightarrow>
        calls w0 = calls w @ (if mounted E w d = Inr True then [Unmount mnt] else []) \<and>
        (let h = calls w0;
             r1 = sys_result E h (Rename mnt mnt');
             r2 = sys_result E (h @ [Rename mnt mnt']) (Rename diff diff');
             r3 = sys_result E (h @ [Rename mnt mnt', Rename diff diff']) (Remove_file layers)
         in if fatal r1 then
              fst (Remove E a w lid) = map_option OsError r1 \<and>
              calls (snd (snd (Remove E a w lid))) = h @ [Rename mnt mnt']
            else if fatal r2 then
              fst (Remove E a w lid) = map_option OsError r2 \<and>
              calls (snd (snd (Remove E a w lid))) =
                h @ [Rename mnt mnt', Rename diff diff', RemoveAll mnt']
            else
              fst (Remove E a w lid) = (if fatal r3 then map_option OsError r3 else None) \<and>
              calls (snd (snd (Remove E a w lid))) =
                h @ [Rename mnt mnt', Rename diff diff', Remove_file layers,
                     RemoveAll diff', RemoveAll mnt']))"
proof -
  have i: "id' d = lid" using resolves by (rule getIdDesc_id)
  have A: "fst (snd (Remove E a w lid)) = a" by (rule Remove_driver)
  have B: "\<forall>err w0. unmount E w d = (Some err, w0) \<longrightarrow> Remove E a w lid = (Some err, a, w0)"
    using resolves by (simp add: Remove_def)
  have C: "calls w0 = calls w @ (if mounted E w d = Inr True then [Unmount mnt] else [])"
    if "unmount E w d = (None, w0)" for w0
    using unmount_ok_calls [OF that] by (simp add: mnt_def i)
  have D: "(let h = calls w0;
             r1 = sys_result E h (Rename mnt mnt');
             r2 = sys_result E (h @ [Rename mnt mnt']) (Rename diff diff');
             r3 = sys_result E (h @ [Rename mnt mnt', Rename diff diff']) (Remove_file layers)
         in if fatal r1 then
              fst (Remove E a w lid) = map_option OsError r1 \<and>
              calls (snd (snd (Remove E a w lid))) = h @ [Rename mnt mnt']
            else if fatal r2 then
              fst (Remove E a w lid) = map_option OsError r2 \<and>
              calls (snd (snd (Remove E a w lid))) =
                h @ [Rename mnt mnt', Rename diff diff', RemoveAll mnt']
            else
              fst (Remove E a w lid) = (if fatal r3 then map_option OsError r3 else None) \<and>
              calls (snd (snd (Remove E a w lid))) =
                h @ [Rename mnt mnt', Rename diff diff', Remove_file layers,
                     RemoveAll diff', RemoveAll mnt'])"
    if u: "unmount E w d = (None, w0)" for w0
  proof -
    note R = Remove_after_unmount [OF resolves u, unfolded i]
    let ?r1 = "sys_result E (calls w0) (Rename mnt mnt')"
    let ?r2 = "sys_result E (calls w0 @ [Rename mnt mnt']) (Rename diff diff')"
    consider (one) "fatal ?r1" | (two) "\<not> fatal ?r1" "fatal ?r2" | (three) "\<not> fatal ?r1" "\<not> fatal ?r2"
      by blast
    then show ?thesis
    proof cases
      case one
      then obtain e where e: "?r1 = Some e" by (auto simp: fatal_def split: option.splits)
      from one e show ?thesis
        unfolding R mnt_def mnt'_def diff_def diff'_def layers_def
        by (simp add: Remove_loop_step i Let_def run_deferred_calls del: Remove_loop.simps(2))
    next
      case two
      then obtain e where e: "?r2 = Some e" by (auto simp: fatal_def split: option.splits)
      from two e show ?thesis
        unfolding R mnt_def mnt'_def diff_def diff'_def layers_def
        by (simp add: Remove_loop_step i Let_def run_deferred_calls del: Remove_loop.simps(2))
    next
      case three
      then show ?thesis
        unfolding R mnt_def mnt'_def diff_def diff'_def layers_def
        by (simp add: Remove_loop_step i Let_def run_deferred_calls del: Remove_loop.simps(2))
    qed
  qed
  show ?thesis
  proof (intro conjI allI impI)
    show "fst (snd (Remove E a w lid)) = a" by (rule A)
  next
    fix err w0
    assume "unmount E w d = (Some err, w0)"
    with B show "Remove E a w lid = (Some err, a, w0)" by blast
  next
    fix w0
    assume "unmount E w d = (None, w0)"
    then show "calls w0 = calls w @ (if mounted E w d = Inr True then [Unmount mnt] else [])"
      by (rule C)
  next
    fix w0
    assume "unmount E w d = (None, w0)"
    then show "(let h = calls w0;
             r1 = sys_result E h (Rename mnt mnt');
             r2 = sys_result E (h @ [Rename mnt mnt']) (Rename diff diff');
             r3 = sys_result E (h @ [Rename mnt mnt', Rename diff diff']) (Remove_file layers)
         in if fatal r1 then
              fst (Remove E a w lid) = map_option OsError r1 \<and>
              calls (snd (snd (Remove E a w lid))) = h @ [Rename mnt mnt']
            else if fatal r2 then
              fst (Remove E a w lid) = map_option OsError r2 \<and>
              calls (snd (snd (Remove E a w lid))) =
                h @ [Rename mnt mnt', Rename diff diff', RemoveAll mnt']
            else
              fst (Remove E a w lid) = (if fatal r3 then map_option OsError r3 else None) \<and>
              calls (snd (snd (Remove E a w lid))) =
                h @ [Rename mnt mnt', Rename diff diff', Remove_file layers,
                     RemoveAll diff', RemoveAll mnt'])"
      by (rule D)
  qed
qed

theorem Remove_order_witness:
  "fst (Remove ex_env_rename_fails ex_driver ex_world ''B'') = Some (OsError 16) \<and>
   calls (snd (snd (Remove ex_env_rename_fails ex_driver ex_world ''B''))) =
     [Rename ''/c/mnt/B'' ''/c/mnt/B-removing'',
      Rename ''/c/diff/B'' ''/c/diff/B-removing'',
      RemoveAll ''/c/mnt/B-removing'']"
proof -
  have g: "getIdDesc ex_env_rename_fails ex_driver ex_world ''B'' =
      Inr \<lparr>id' = ''B'', rootPath = ''/c''\<rparr>"
    by (simp add: ex_env_rename_fails_def ex_getIdDesc)
  have u: "unmount ex_env_rename_fails ex_world \<lparr>id' = ''B'', rootPath = ''/c''\<rparr> = (None, ex_world)"
    by (simp add: ex_env_rename_fails_def ex_unmount_B)
  have s: "sys_result ex_env_rename_fails h c =
      (case c of Rename s t \<Rightarrow> (if s = ''/c/diff/B'' then Some 16 else None) | _ \<Rightarrow> None)" for h c
    by (simp add: ex_env_rename_fails_def)
  from Remove_order [OF g, THEN conjunct2, THEN conjunct2, rule_format, OF u, THEN conjunct2]
  show ?thesis
    by (simp add: Let_def s fatal_def ENOENT_def ex_paths3 ex_paths4 ex_calls)
qed

section \<open>Properties of the parent file\<close>

text \<open>
  Claim C6, as the code has it. The claim speaks of every parent chain. An id that
  holds a line feed is written by one \<open>Fprintln\<close> and read back as two ids: in the
  example, \<open>Create\<close> with the parent \<open>a<LF>b\<close> (a layer listed under the image root)
  writes that one line, and \<open>getParentIds\<close> then reads the chain \<open>a\<close>, \<open>b\<close>.
\<close>

theorem Create_then_getParentIds_counterexample:
  "Create ex_env_fs ex_driver ex_world ''X'' (''a'' @ [LF] @ ''b'') True =
     (None, ex_world\<lparr>calls :=
        [MkdirAll ''/i/mnt/X'' perm_0755, MkdirAll ''/i/diff/X'' perm_0755,
         Create_file ''/i/layers/X'', Fprintln ''/i/layers/X'' (''a'' @ [LF] @ ''b''),
         Close_file ''/i/layers/X'']\<rparr>) \<and>
   getParentIds ex_env_fs
     (snd (Create ex_env_fs ex_driver ex_world ''X'' (''a'' @ [LF] @ ''b'') True)) ''/i'' ''X'' =
     ([''a'', ''b''], None)"
proof -
  have "getParentIds ex_env_fs
     (snd (Create ex_env_fs ex_driver ex_world ''X'' (''a'' @ [LF] @ ''b'') True)) ''/i'' ''X'' =
     ([''a'', ''b''], None)"
    unfolding ex_fs_Create_lf
    by (simp add: getParentIds_def ex_paths5 ex_env_fs_def
          Scanner_lines.simps MaxScanTokenSize_def LF_def CR_def dropCR_def)
  with ex_fs_Create_lf show ?thesis by simp
qed

text \<open>
  Claim C6, amended. When \<open>Create\<close> succeeds, the calls it made are the two
  \<open>MkdirAll\<close>, the creation of the file \<open>layers/<id>\<close>, one \<open>Fprintln\<close> per id of a chain,
  and the closing of the file. The chain is empty for an empty parent, and otherwise
  the parent followed by the parent's own chain as \<open>getParentIds\<close> read it. Whenever
  the file holds the lines written (each id and a line feed), and every id of the
  chain is not empty, holds no line feed, does not end in a carriage return and is
  shorter than the scanner's buffer, \<open>getParentIds\<close> reads back the same chain without
  error; the empty file reads back as the empty chain.
\<close>

theorem Create_then_getParentIds:
  fixes E :: env and a :: Driver and w w' :: world and lid parent :: string
    and isImageLayer :: bool
  assumes ok: "Create E a w lid parent isImageLayer = (None, w')"
  defines "root \<equiv> rootLocalLayers a isImageLayer"
  defines "f \<equiv> Join [root, ''layers'', lid]"
  defines "w2 \<equiv> w\<lparr>calls := calls w @
                  [MkdirAll (Join [root, ''mnt'', lid]) perm_0755,
                   MkdirAll (Join [root, ''diff'', lid]) perm_0755,
                   Create_file f]\<rparr>"
  shows
    "\<exists>chain.
       calls w' = calls w2 @ map (Fprintln f) chain @ [Close_file f] \<and>
       (parent = [] \<longrightarrow> chain = []) \<and>
       (parent \<noteq> [] \<longrightarrow>
          (\<exists>pd ids. getIdDesc E a w2 parent = Inr pd \<and>
                    getParentIds E w2 (rootPath pd) parent = (ids, None) \<and>
                    chain = parent # ids)) \<and>
       (\<forall>E' w''. os_Open E' (calls w'') f = Inr (chain_text chain, None) \<and>
                 (\<forall>i \<in> set chain. valid_id i) \<longrightarrow>
                 getParentIds E' w'' root lid = (chain, None))"
proof -
  obtain r0 w1 where cd: "createDirsFor E a w lid isImageLayer = (r0, w1)"
    by (cases "createDirsFor E a w lid isImageLayer")
  with ok obtain r where r0: "r0 = Inr r"
    by (cases r0) (simp_all add: Create_def)
  from createDirsFor_ok [OF cd [unfolded r0]]
  have r: "r = root"
    and w1: "w1 = w\<lparr>calls := calls w @ [MkdirAll (Join [root, ''mnt'', lid]) perm_0755,
                                       MkdirAll (Join [root, ''diff'', lid]) perm_0755]\<rparr>"
    by (simp_all add: root_def)
  obtain rc wc where cf: "do_call E (Create_file f) w1 = (rc, wc)"
    by (cases "do_call E (Create_file f) w1")
  from ok cd r0 r cf have rc: "rc = None"
    by (cases rc) (simp_all add: Create_def f_def Let_def)
  from do_call_ok [OF cf [unfolded rc]] w1 have wc: "wc = w2"
    by (simp add: w2_def)
  have rd: "\<forall>E' w''. os_Open E' (calls w'') f = Inr (chain_text chain, None) \<and>
                 (\<forall>i \<in> set chain. valid_id i) \<longrightarrow>
                 getParentIds E' w'' root lid = (chain, None)" for chain
    using getParentIds_chain_text [of _ _ root lid chain] by (simp add: f_def)
  show ?thesis
  proof (cases "parent = []")
    case True
    with ok cd r0 r cf rc wc have "w' = snd (do_call E (Close_file f) w2)"
      by (simp add: Create_def f_def Let_def)
    then have "calls w' = calls w2 @ map (Fprintln f) [] @ [Close_file f]" by simp
    with True rd [of "[]"] show ?thesis by blast
  next
    case False
    obtain g where g: "getIdDesc E a w2 parent = g" by simp
    from ok cd r0 r cf rc wc False g obtain pd where pd: "g = Inr pd"
      by (cases g) (simp_all add: Create_def f_def Let_def)
    have i: "id' pd = parent" using g pd getIdDesc_id by blast
    obtain ids err where gp: "getParentIds E w2 (rootPath pd) parent = (ids, err)"
      by (cases "getParentIds E w2 (rootPath pd) parent")
    from ok cd r0 r cf rc wc False g pd i gp have err: "err = None"
      by (cases err) (simp_all add: Create_def f_def Let_def)
    obtain rp w3 where fp: "do_call E (Fprintln f parent) w2 = (rp, w3)"
      by (cases "do_call E (Fprintln f parent) w2")
    from ok cd r0 r cf rc wc False g pd i gp err fp have rp: "rp = None"
      by (cases rp) (simp_all add: Create_def f_def Let_def)
    obtain rl w4 where cl: "Create_loop E f ids w3 = (rl, w4)"
      by (cases "Create_loop E f ids w3")
    from ok cd r0 r cf rc wc False g pd i gp err fp rp cl
    have rl: "rl = None" and w': "w' = snd (do_call E (Close_file f) w4)"
      by (simp_all add: Create_def f_def Let_def)
    from do_call_ok [OF fp [unfolded rp]] Create_loop_ok [OF cl [unfolded rl]] w'
    have "calls w' = calls w2 @ map (Fprintln f) (parent # ids) @ [Close_file f]"
      by simp
    moreover have "\<exists>pd ids'. getIdDesc E a w2 parent = Inr pd \<and>
                    getParentIds E w2 (rootPath pd) parent = (ids', None) \<and>
                    parent # ids = parent # ids'"
      using g pd gp err by blast
    ultimately show ?thesis using False rd [of "parent # ids"] by blast
  qed
qed

theorem Create_then_getParentIds_witness:
  "\<exists>w'. Create ex_env_fs ex_driver ex_world ''X'' ''B'' True = (None, w') \<and>
        getParentIds ex_env_fs w' ''/i'' ''X'' = ([''B'', ''A''], None)"
proof -
  let ?w' = "ex_world\<lparr>calls :=
        [MkdirAll ''/i/mnt/X'' perm_0755, MkdirAll ''/i/diff/X'' perm_0755,
         Create_file ''/i/layers/X'', Fprintln ''/i/layers/X'' ''B'',
         Fprintln ''/i/layers/X'' ''A'', Close_file ''/i/layers/X'']\<rparr>"
  from Create_then_getParentIds [OF ex_fs_Create_B]
  obtain chain where
    cs: "calls ?w' =
          calls (ex_world\<lparr>calls := calls ex_world @
               [MkdirAll (Join [rootLocalLayers ex_driver True, ''mnt'', ''X'']) perm_0755,
                MkdirAll (Join [rootLocalLayers ex_driver True, ''diff'', ''X'']) perm_0755,
                Create_file (Join [rootLocalLayers ex_driver True, ''layers'', ''X''])]\<rparr>) @
          map (Fprintln (Join [rootLocalLayers ex_driver True, ''layers'', ''X''])) chain @
          [Close_file (Join [rootLocalLayers ex_driver True, ''layers'', ''X''])]"
    and rb: "\<forall>E' w''. os_Open E' (calls w'') (Join [rootLocalLayers ex_driver True, ''layers'', ''X'']) =
                 Inr (chain_text chain, None) \<and> (\<forall>i \<in> set chain. valid_id i) \<longrightarrow>
                 getParentIds E' w'' (rootLocalLayers ex_driver True) ''X'' = (chain, None)"
    by blast
  from cs have "map (Fprintln ''/i/layers/X'') chain = [Fprintln ''/i/layers/X'' ''B'', Fprintln ''/i/layers/X'' ''A'']"
    by (simp add: ex_calls ex_roots ex_paths5 rootLocalLayers_def)
  then have chain: "chain = [''B'', ''A'']"
    by (auto simp: map_eq_Cons_conv)
  have o: "os_Open ex_env_fs (calls ?w') ''/i/layers/X'' = Inr (chain_text [''B'', ''A''], None)"
    by (simp add: ex_env_fs_def chain_text_def)
  have v: "\<forall>i \<in> set [''B'', ''A'']. valid_id i"
    by (simp add: valid_id_def MaxScanTokenSize_def LF_def CR_def)
  from rb [rule_format, of ex_env_fs ?w'] o v chain
  have "getParentIds ex_env_fs ?w' ''/i'' ''X'' = ([''B'', ''A''], None)"
    by (simp add: ex_roots ex_paths5 rootLocalLayers_def)
  with ex_fs_Create_B show ?thesis by blast
qed

section \<open>Properties of \<open>Init\<close>\<close>

text \<open>
  Claim C9, as the code has it. The claim has \<open>Init\<close> bootstrap both local roots before
  it returns the driver. \<open>createRootDir\<close> returns at once, without error, when
  \<open>os.MkdirAll\<close> of the root answers with an error that \<open>os.IsExist\<close> accepts: the three
  directories are not created and the root is not made private. In the example
  \<open>os.MkdirAll\<close> answers \<open>EEXIST\<close> for both roots (a dangling symbolic link is in
  their place): \<open>Init\<close> returns the driver after these two calls alone.
\<close>

theorem Init_preconditions_counterexample:
  "Init ex_env_exists ex_world ''/var/lib/docker'' [] =
     (Inr \<lparr>rootNFSImageLayers = ''/mnt'',
           rootLocalContainerLayers = ''/var/lib/docker-aufs/container-layers'',
           rootLocalImageLayers = ''/var/lib/docker-aufs/image-layers'',
           active = Map.empty\<rparr>,
      ex_world\<lparr>calls :=
        [Exec_Run ''modprobe'' [''aufs''],
         MkdirAll ''/var/lib/docker-aufs/container-layers'' perm_0755,
         MkdirAll ''/var/lib/docker-aufs/image-layers'' perm_0755],
        backingFs := ''extfs''\<rparr>)"
proof -
  have s: "sys_result ex_env_exists h (MkdirAll ''/var/lib/docker-aufs/container-layers'' perm_0755) = Some EEXIST"
    "sys_result ex_env_exists h (MkdirAll ''/var/lib/docker-aufs/image-layers'' perm_0755) = Some EEXIST" for h
    by (simp_all add: ex_env_exists_def)
  have m: "graphdriver_GetFSMagic ex_env_exists h ''/var/lib/docker'' = Inr 0xEF53"
    "FsMagicBtrfs ex_env_exists = 0x9123683E" "FsMagicAufs ex_env_exists = 0x61756673"
    "FsNames ex_env_exists 0xEF53 = Some ''extfs''" for h
    by (simp_all add: ex_env_exists_def ex_env_def)
  show ?thesis
    by (simp add: Init_def ex_exists_supportsAufs m incompatibleFsMagic_def createRootDir_def do_call_def s
          pkg_rootNFSImageLayers_def pkg_rootLocalContainerLayers_def pkg_rootLocalImageLayers_def)
qed

text \<open>
  Claim C9, amended. After the attempt to load the module (whose result is not looked
  at), \<open>Init\<close> fails with \<open>ErrNotSupported\<close> exactly when no line that the scanner
  delivers from \<open>/proc/filesystems\<close> contains \<open>aufs\<close> (a file that cannot be opened has
  no line). When aufs is listed and the magic of the driver root is that of btrfs or
  aufs, \<open>Init\<close> fails with \<open>ErrIncompatibleFS\<close>; when the magic cannot be read, \<open>Init\<close>
  returns that error. Otherwise \<open>Init\<close> bootstraps the local container root and then
  the local image root, as \<open>bootstrap_root\<close> tells: a root that \<open>os.MkdirAll\<close> reports
  as existing is left as it is, with no directory created in it and without being
  made private; for another root the calls are \<open>os.MkdirAll\<close> of the root, of \<open>mnt\<close>,
  \<open>diff\<close> and \<open>layers\<close> in it and \<open>MakePrivate\<close> of the root, up to the first that
  fails. \<open>Init\<close> returns the error of the first bootstrap that fails, and else a driver
  with the three roots and an empty \<open>active\<close> map. When no call fails, the calls are
  the module load and the five calls of each bootstrap; when both roots are reported
  as existing, they are the module load and the two \<open>os.MkdirAll\<close> of the roots.
\<close>

theorem Init_preconditions:
  fixes E :: env and w :: world and root :: string and options :: "string list"
  defines "w1 \<equiv> w\<lparr>calls := calls w @ [Exec_Run ''modprobe'' [''aufs'']]\<rparr>"
  defines "listed \<equiv> (\<exists>line \<in> set (proc_filesystems_lines E w1). Contains line ''aufs'')"
  defines "driver \<equiv> \<lparr>rootNFSImageLayers = pkg_rootNFSImageLayers,
                       rootLocalContainerLayers = pkg_rootLocalContainerLayers,
                       rootLocalImageLayers = pkg_rootLocalImageLayers,
                       active = Map.empty\<rparr>"
  shows
    "(fst (Init E w root options) = Inl ErrNotSupported \<longleftrightarrow> \<not> listed) \<and>
     (\<forall>m. listed \<and> graphdriver_GetFSMagic E (calls w1) root = Inr m \<and>
          (m = FsMagicBtrfs E \<or> m = FsMagicAufs E) \<longrightarrow>
          fst (Init E w root options) = Inl ErrIncompatibleFS) \<and>
     (\<forall>e. listed \<and> graphdriver_GetFSMagic E (calls w1) root = Inl e \<longrightarrow>
          Init E w root options = (Inl (OsError e), w1)) \<and>
     (\<forall>m. listed \<and> graphdriver_GetFSMagic E (calls w1) root = Inr m \<and>
          m \<noteq> FsMagicBtrfs E \<and> m \<noteq> FsMagicAufs E \<longrightarrow>
          (let w2 = (case FsNames E m of Some fsName \<Rightarrow> w1\<lparr>backingFs := fsName\<rparr> | None \<Rightarrow> w1)
           in Init E w root options =
                (case bootstrap_root E pkg_rootLocalContainerLayers w2 of
                   (Some err, w3) \<Rightarrow> (Inl err, w3)
                 | (None, w3) \<Rightarrow>
                     (case bootstrap_root E pkg_rootLocalImageLayers w3 of
                        (Some err, w4) \<Rightarrow> (Inl err, w4)
                      | (None, w4) \<Rightarrow> (Inr driver, w4))))) \<and>
     (\<forall>m. listed \<and> graphdriver_GetFSMagic E (calls w1) root = Inr m \<and>
          m \<noteq> FsMagicBtrfs E \<and> m \<noteq> FsMagicAufs E \<and> (\<forall>h c. sys_result E h c = None) \<longrightarrow>
          fst (Init E w root options) = Inr driver \<and>
          calls (snd (Init E w root options)) =
            calls w1 @ bootstrap_calls pkg_rootLocalContainerLayers @
            bootstrap_calls pkg_rootLocalImageLayers) \<and>
     (\<forall>m. listed \<and> graphdriver_GetFSMagic E (calls w1) root = Inr m \<and>
          m \<noteq> FsMagicBtrfs E \<and> m \<noteq> FsMagicAufs E \<and>
          root_exists E (calls w1) pkg_rootLocalContainerLayers \<and>
          root_exists E (calls w1 @ [MkdirAll pkg_rootLocalContainerLayers perm_0755])
            pkg_rootLocalImageLayers \<longrightarrow>
          fst (Init E w root options) = Inr driver \<and>
          calls (snd (Init E w root options)) =
            calls w1 @ [MkdirAll pkg_rootLocalContainerLayers perm_0755,
                        MkdirAll pkg_rootLocalImageLayers perm_0755])"
proof -
  have s: "fst (supportsAufs E w) = None \<longleftrightarrow> listed"
    unfolding listed_def w1_def by (rule supportsAufs_None_iff)
  have sw: "snd (supportsAufs E w) = w1"
    unfolding w1_def by (rule supportsAufs_world)
  obtain r0 where sa: "supportsAufs E w = (r0, w1)"
    using sw by (cases "supportsAufs E w") simp
  with s have r0: "r0 = None \<longleftrightarrow> listed" by simp
  have no: "\<not> listed \<Longrightarrow> Init E w root options = (Inl ErrNotSupported, w1)"
    using sa r0 by (cases r0) (simp_all add: Init_def)
  have yes: "Init E w root options =
      (case graphdriver_GetFSMagic E (calls w1) root of
         Inl err \<Rightarrow> (Inl (OsError err), w1)
       | Inr fsMagic \<Rightarrow>
           (let w2 = (case FsNames E fsMagic of
                        Some fsName \<Rightarrow> w1\<lparr>backingFs := fsName\<rparr>
                      | None \<Rightarrow> w1)
            in if fsMagic = FsMagicBtrfs E \<or> fsMagic = FsMagicAufs E
               then (Inl ErrIncompatibleFS, w2)
               else (case createRootDir E pkg_rootLocalContainerLayers w2 of
                       (Some err, w3) \<Rightarrow> (Inl err, w3)
                     | (None, w3) \<Rightarrow>
                         (case createRootDir E pkg_rootLocalImageLayers w3 of
                            (Some err, w4) \<Rightarrow> (Inl err, w4)
                          | (None, w4) \<Rightarrow> (Inr driver, w4)))))"
    if listed
  proof -
    from r0 that have "r0 = None" by simp
    with sa have "supportsAufs E w = (None, w1)" by simp
    then show ?thesis
      by (simp add: Init_def incompatibleFsMagic_def driver_def Let_def
            split: sum.splits prod.splits option.splits)
  qed
  have ne: "fst (Init E w root options) \<noteq> Inl ErrNotSupported" if l: listed
  proof (cases "graphdriver_GetFSMagic E (calls w1) root")
    case (Inl e)
    then show ?thesis by (simp add: yes [OF l])
  next
    case (Inr m)
    let ?w2 = "case FsNames E m of Some fsName \<Rightarrow> w1\<lparr>backingFs := fsName\<rparr> | None \<Rightarrow> w1"
    obtain r3 w3 where c3: "createRootDir E pkg_rootLocalContainerLayers ?w2 = (r3, w3)"
      by (cases "createRootDir E pkg_rootLocalContainerLayers ?w2")
    obtain r4 w4 where c4: "createRootDir E pkg_rootLocalImageLayers w3 = (r4, w4)"
      by (cases "createRootDir E pkg_rootLocalImageLayers w3")
    have e3: "r3 = Some err \<Longrightarrow> err \<noteq> ErrNotSupported" for err
      using createRootDir_error [of E pkg_rootLocalContainerLayers ?w2 err w3] c3 by auto
    have e4: "r4 = Some err \<Longrightarrow> err \<noteq> ErrNotSupported" for err
      using createRootDir_error [of E pkg_rootLocalImageLayers w3 err w4] c4 by auto
    show ?thesis
      using Inr c3 c4 e3 e4
      by (cases r3; cases r4) (simp_all add: yes [OF l] Let_def)
  qed
  have A: "fst (Init E w root options) = Inl ErrNotSupported \<longleftrightarrow> \<not> listed"
    using no ne by auto
  have B: "\<forall>m. listed \<and> graphdriver_GetFSMagic E (calls w1) root = Inr m \<and>
          (m = FsMagicBtrfs E \<or> m = FsMagicAufs E) \<longrightarrow>
          fst (Init E w root options) = Inl ErrIncompatibleFS"
    by (auto simp: yes Let_def)
  have C: "\<forall>e. listed \<and> graphdriver_GetFSMagic E (calls w1) root = Inl e \<longrightarrow>
          Init E w root options = (Inl (OsError e), w1)"
    by (simp add: yes)
  have D: "\<forall>m. listed \<and> graphdriver_GetFSMagic E (calls w1) root = Inr m \<and>
          m \<noteq> FsMagicBtrfs E \<and> m \<noteq> FsMagicAufs E \<longrightarrow>
          (let w2 = (case FsNames E m of Some fsName \<Rightarrow> w1\<lparr>backingFs := fsName\<rparr> | None \<Rightarrow> w1)
           in Init E w root options =
                (case bootstrap_root E pkg_rootLocalContainerLayers w2 of
                   (Some err, w3) \<Rightarrow> (Inl err, w3)
                 | (None, w3) \<Rightarrow>
                     (case bootstrap_root E pkg_rootLocalImageLayers w3 of
                        (Some err, w4) \<Rightarrow> (Inl err, w4)
                      | (None, w4) \<Rightarrow> (Inr driver, w4))))"
    by (simp add: yes [unfolded createRootDir_bootstrap_root] Let_def)
  have F: "\<forall>m. listed \<and> graphdriver_GetFSMagic E (calls w1) root = Inr m \<and>
          m \<noteq> FsMagicBtrfs E \<and> m \<noteq> FsMagicAufs E \<and> (\<forall>h c. sys_result E h c = None) \<longrightarrow>
          fst (Init E w root options) = Inr driver \<and>
          calls (snd (Init E w root options)) =
            calls w1 @ bootstrap_calls pkg_rootLocalContainerLayers @
            bootstrap_calls pkg_rootLocalImageLayers"
  proof (intro allI impI)
    fix m
    assume h: "listed \<and> graphdriver_GetFSMagic E (calls w1) root = Inr m \<and>
          m \<noteq> FsMagicBtrfs E \<and> m \<noteq> FsMagicAufs E \<and> (\<forall>h c. sys_result E h c = None)"
    then have ok: "\<forall>h c. sys_result E h c = None" by simp
    from h show "fst (Init E w root options) = Inr driver \<and>
          calls (snd (Init E w root options)) =
            calls w1 @ bootstrap_calls pkg_rootLocalContainerLayers @
            bootstrap_calls pkg_rootLocalImageLayers"
      by (cases "FsNames E m") (simp_all add: yes Let_def createRootDir_all_ok [OF ok])
  qed
  have G: "\<forall>m. listed \<and> graphdriver_GetFSMagic E (calls w1) root = Inr m \<and>
          m \<noteq> FsMagicBtrfs E \<and> m \<noteq> FsMagicAufs E \<and>
          root_exists E (calls w1) pkg_rootLocalContainerLayers \<and>
          root_exists E (calls w1 @ [MkdirAll pkg_rootLocalContainerLayers perm_0755])
            pkg_rootLocalImageLayers \<longrightarrow>
          fst (Init E w root options) = Inr driver \<and>
          calls (snd (Init E w root options)) =
            calls w1 @ [MkdirAll pkg_rootLocalContainerLayers perm_0755,
                        MkdirAll pkg_rootLocalImageLayers perm_0755]"
  proof (intro allI impI)
    fix m
    assume h: "listed \<and> graphdriver_GetFSMagic E (calls w1) root = Inr m \<and>
          m \<noteq> FsMagicBtrfs E \<and> m \<noteq> FsMagicAufs E \<and>
          root_exists E (calls w1) pkg_rootLocalContainerLayers \<and>
          root_exists E (calls w1 @ [MkdirAll pkg_rootLocalContainerLayers perm_0755])
            pkg_rootLocalImageLayers"
    let ?w2 = "case FsNames E m of Some fsName \<Rightarrow> w1\<lparr>backingFs := fsName\<rparr> | None \<Rightarrow> w1"
    have c2: "calls ?w2 = calls w1" by (cases "FsNames E m") simp_all
    from h c2 have x1: "root_exists E (calls ?w2) pkg_rootLocalContainerLayers" by simp
    let ?w3 = "?w2\<lparr>calls := calls ?w2 @ [MkdirAll pkg_rootLocalContainerLayers perm_0755]\<rparr>"
    from h c2 have x2: "root_exists E (calls ?w3) pkg_rootLocalImageLayers" by simp
    from h have "Init E w root options =
        (Inr driver, ?w3\<lparr>calls := calls ?w3 @ [MkdirAll pkg_rootLocalImageLayers perm_0755]\<rparr>)"
      by (simp add: yes Let_def createRootDir_bootstrap_root
            bootstrap_root_exists [OF x1] bootstrap_root_exists [OF x2])
    with c2 show "fst (Init E w root options) = Inr driver \<and>
          calls (snd (Init E w root options)) =
            calls w1 @ [MkdirAll pkg_rootLocalContainerLayers perm_0755,
                        MkdirAll pkg_rootLocalImageLayers perm_0755]"
      by simp
  qed
  show ?thesis by (intro conjI A B C D F G)
qed

theorem Init_preconditions_witness:
  "fst (Init ex_env ex_world ''/var/lib/docker'' []) =
     Inr \<lparr>rootNFSImageLayers = ''/mnt'',
          rootLocalContainerLayers = ''/var/lib/docker-aufs/container-layers'',
          rootLocalImageLayers = ''/var/lib/docker-aufs/image-layers'',
          active = Map.empty\<rparr> \<and>
   calls (snd (Init ex_env ex_world ''/var/lib/docker'' [])) =
     [Exec_Run ''modprobe'' [''aufs''],
      MkdirAll ''/var/lib/docker-aufs/container-layers'' perm_0755,
      MkdirAll ''/var/lib/docker-aufs/container-layers/mnt'' perm_0755,
      MkdirAll ''/var/lib/docker-aufs/container-layers/diff'' perm_0755,
      MkdirAll ''/var/lib/docker-aufs/container-layers/layers'' perm_0755,
      MakePrivate ''/var/lib/docker-aufs/container-layers'',
      MkdirAll ''/var/lib/docker-aufs/image-layers'' perm_0755,
      MkdirAll ''/var/lib/docker-aufs/image-layers/mnt'' perm_0755,
      MkdirAll ''/var/lib/docker-aufs/image-layers/diff'' perm_0755,
      MkdirAll ''/var/lib/docker-aufs/image-layers/layers'' perm_0755,
      MakePrivate ''/var/lib/docker-aufs/image-layers''] \<and>
   fst (Init ex_env_no_aufs ex_world ''/var/lib/docker'' []) = Inl ErrNotSupported \<and>
   fst (Init ex_env_btrfs ex_world ''/var/lib/docker'' []) = Inl ErrIncompatibleFS \<and>
   fst (Init ex_env_mkdir_fails ex_world ''/var/lib/docker'' []) = Inl (OsError 13) \<and>
   calls (snd (Init ex_env_mkdir_fails ex_world ''/var/lib/docker'' [])) =
     [Exec_Run ''modprobe'' [''aufs''],
      MkdirAll ''/var/lib/docker-aufs/container-layers'' perm_0755,
      MkdirAll ''/var/lib/docker-aufs/container-layers/mnt'' perm_0755,
      MkdirAll ''/var/lib/docker-aufs/container-layers/diff'' perm_0755]"
proof -
  have m: "graphdriver_GetFSMagic ex_env h ''/var/lib/docker'' = Inr 0xEF53"
    "FsMagicBtrfs ex_env = 0x9123683E" "FsMagicAufs ex_env = 0x61756673" for h
    by (simp_all add: ex_env_def)
  have mb: "graphdriver_GetFSMagic ex_env_btrfs h ''/var/lib/docker'' = Inr 0x9123683E"
    "FsMagicBtrfs ex_env_btrfs = 0x9123683E" for h
    by (simp_all add: ex_env_btrfs_def ex_env_def)
  have mf: "graphdriver_GetFSMagic ex_env_mkdir_fails h ''/var/lib/docker'' = Inr 0xEF53"
    "FsMagicBtrfs ex_env_mkdir_fails = 0x9123683E" "FsMagicAufs ex_env_mkdir_fails = 0x61756673"
    "FsNames ex_env_mkdir_fails 0xEF53 = Some ''extfs''" for h
    by (simp_all add: ex_env_mkdir_fails_def ex_env_def)
  have sf: "sys_result ex_env_mkdir_fails h c =
      (case c of
         MkdirAll p m \<Rightarrow>
           (if p = ''/var/lib/docker-aufs/container-layers/diff'' then Some 13 else None)
       | _ \<Rightarrow> None)" for h c
    by (simp add: ex_env_mkdir_fails_def)
  from Init_preconditions [of ex_env ex_world "''/var/lib/docker''" "[]",
      THEN conjunct2, THEN conjunct2, THEN conjunct2, THEN conjunct2, THEN conjunct1,
      rule_format, of "0xEF53"]
  have 1: "fst (Init ex_env ex_world ''/var/lib/docker'' []) =
     Inr \<lparr>rootNFSImageLayers = ''/mnt'',
          rootLocalContainerLayers = ''/var/lib/docker-aufs/container-layers'',
          rootLocalImageLayers = ''/var/lib/docker-aufs/image-layers'',
          active = Map.empty\<rparr> \<and>
   calls (snd (Init ex_env ex_world ''/var/lib/docker'' [])) =
     [Exec_Run ''modprobe'' [''aufs''],
      MkdirAll ''/var/lib/docker-aufs/container-layers'' perm_0755,
      MkdirAll ''/var/lib/docker-aufs/container-layers/mnt'' perm_0755,
      MkdirAll ''/var/lib/docker-aufs/container-layers/diff'' perm_0755,
      MkdirAll ''/var/lib/docker-aufs/container-layers/layers'' perm_0755,
      MakePrivate ''/var/lib/docker-aufs/container-layers'',
      MkdirAll ''/var/lib/docker-aufs/image-layers'' perm_0755,
      MkdirAll ''/var/lib/docker-aufs/image-layers/mnt'' perm_0755,
      MkdirAll ''/var/lib/docker-aufs/image-layers/diff'' perm_0755,
      MkdirAll ''/var/lib/docker-aufs/image-layers/layers'' perm_0755,
      MakePrivate ''/var/lib/docker-aufs/image-layers'']"
    by (simp add: ex_proc_lines Contains_def sublist_code m ex_sys_result ex_bootstrap ex_calls
          pkg_rootNFSImageLayers_def pkg_rootLocalContainerLayers_def pkg_rootLocalImageLayers_def)
  from Init_preconditions [of ex_env_no_aufs ex_world "''/var/lib/docker''" "[]", THEN conjunct1]
  have 2: "fst (Init ex_env_no_aufs ex_world ''/var/lib/docker'' []) = Inl ErrNotSupported"
    by (simp add: ex_proc_lines Contains_def sublist_code)
  from Init_preconditions [of ex_env_btrfs ex_world "''/var/lib/docker''" "[]",
      THEN conjunct2, THEN conjunct1, rule_format, of "0x9123683E"]
  have 3: "fst (Init ex_env_btrfs ex_world ''/var/lib/docker'' []) = Inl ErrIncompatibleFS"
    by (simp add: ex_proc_lines Contains_def sublist_code mb)
  from Init_preconditions [of ex_env_mkdir_fails ex_world "''/var/lib/docker''" "[]",
      THEN conjunct2, THEN conjunct2, THEN conjunct2, THEN conjunct1, rule_format, of "0xEF53"]
  have 4: "fst (Init ex_env_mkdir_fails ex_world ''/var/lib/docker'' []) = Inl (OsError 13) \<and>
   calls (snd (Init ex_env_mkdir_fails ex_world ''/var/lib/docker'' [])) =
     [Exec_Run ''modprobe'' [''aufs''],
      MkdirAll ''/var/lib/docker-aufs/container-layers'' perm_0755,
      MkdirAll ''/var/lib/docker-aufs/container-layers/mnt'' perm_0755,
      MkdirAll ''/var/lib/docker-aufs/container-layers/diff'' perm_0755]"
    by (simp add: ex_proc_lines_mkdir Contains_def sublist_code mf sf ex_bootstrap ex_calls
          bootstrap_root_def root_exists_def do_call_def
          pkg_rootNFSImageLayers_def pkg_rootLocalContainerLayers_def pkg_rootLocalImageLayers_def)
  from 1 2 3 4 show ?thesis by simp
qed

end
